theory Spec2Isabelle
  imports Complex_Main "HOL-Library.Word" "HOL-Library.Log_Nat"
begin

section \<open>Go values: panics, machine integers, raw JSON\<close>

text \<open>
  A Go function either returns or panics. The two run-time panics that the modelled code
  can raise are an index out of range (index and length) and a nil pointer dereference.
\<close>

datatype panic = IndexOutOfRange nat nat | NilPointerDereference

datatype 'a outcome = Return 'a | Panic panic

type_synonym uint64 = "64 word"

text \<open>
  \<open>json.RawMessage\<close> is a byte slice: \<open>None\<close> is the nil slice of an absent field,
  \<open>Some bs\<close> the bytes that were present.
\<close>

type_synonym RawMessage = "string option"

definition RawMessage_bytes :: "RawMessage \<Rightarrow> string" where
  "RawMessage_bytes raw = (case raw of None \<Rightarrow> [] | Some bs \<Rightarrow> bs)"

text \<open>
  \<open>json.Unmarshal(data, &v)\<close> for a freshly zeroed \<open>v\<close>. The decoder of the target type
  is a parameter; what encoding/json does before any decoder runs is fixed here: empty
  input is rejected as "unexpected end of JSON input".
\<close>

definition json_Unmarshal :: "(string \<Rightarrow> string + 'a) \<Rightarrow> string \<Rightarrow> string + 'a" where
  "json_Unmarshal decoder data =
     (if data = [] then Inl ''unexpected end of JSON input'' else decoder data)"

section \<open>strconv and strings\<close>

datatype NumError = ErrSyntax | ErrRange

definition isDigit :: "char \<Rightarrow> bool" where
  "isDigit c = (48 \<le> (of_char c :: nat) \<and> (of_char c :: nat) \<le> 57)"

definition digitVal :: "char \<Rightarrow> nat" where
  "digitVal c = of_char c - 48"

definition maxUint64 :: nat where
  "maxUint64 = 2 ^ 64 - 1"

text \<open>
  \<open>strconv.ParseUint(s, 10, 64)\<close>: no sign, no underscore, digits only; the running value
  is checked against the cutoff before each multiplication and against the maximum after
  each addition.
\<close>

fun ParseUint_loop :: "nat \<Rightarrow> string \<Rightarrow> NumError + nat" where
  "ParseUint_loop n [] = Inr n"
| "ParseUint_loop n (c # cs) =
     (if \<not> isDigit c then Inl ErrSyntax
      else if n \<ge> maxUint64 div 10 + 1 then Inl ErrRange
      else if n * 10 + digitVal c > maxUint64 then Inl ErrRange
      else ParseUint_loop (n * 10 + digitVal c) cs)"

definition ParseUint :: "string \<Rightarrow> NumError + uint64" where
  "ParseUint s =
     (if s = [] then Inl ErrSyntax
      else case ParseUint_loop 0 s of Inl e \<Rightarrow> Inl e | Inr n \<Rightarrow> Inr (of_nat n))"

text \<open>\<open>strconv.FormatUint(n, 10)\<close>: the decimal digits, most significant first.\<close>

function FormatUint_nat :: "nat \<Rightarrow> string" where
  "FormatUint_nat n =
     (if n < 10 then [''0123456789'' ! n]
      else FormatUint_nat (n div 10) @ [''0123456789'' ! (n mod 10)])"
  by pat_completeness auto
termination
  by (relation "measure id") auto

declare FormatUint_nat.simps [simp del]

definition FormatUint :: "uint64 \<Rightarrow> string" where
  "FormatUint n = FormatUint_nat (unat n)"

text \<open>\<open>strconv.Itoa\<close>, also what \<open>fmt.Sprintf("%v", i)\<close> prints for an integer.\<close>

definition Itoa :: "int \<Rightarrow> string" where
  "Itoa i = (if i < 0 then CHR ''-'' # FormatUint_nat (nat (- i)) else FormatUint_nat (nat i))"

text \<open>
  \<open>strings.Split(s, sep)\<close>: the parts between the leftmost, non-overlapping occurrences of
  \<open>sep\<close>; with an empty separator, one part per byte.
\<close>

function strings_Split_from :: "string \<Rightarrow> string \<Rightarrow> string \<Rightarrow> string list" where
  "strings_Split_from sep cur [] = [cur]"
| "strings_Split_from sep cur (c # cs) =
     (if sep \<noteq> [] \<and> take (length sep) (c # cs) = sep
      then cur # strings_Split_from sep [] (drop (length sep) (c # cs))
      else strings_Split_from sep (cur @ [c]) cs)"
  by pat_completeness auto
termination
  by (relation "measure (\<lambda>(sep, cur, s). length s)") auto

definition strings_Split :: "string \<Rightarrow> string \<Rightarrow> string list" where
  "strings_Split s sep =
     (if sep = [] then map (\<lambda>c. [c]) s else strings_Split_from sep [] s)"

fun strings_Join :: "string list \<Rightarrow> string \<Rightarrow> string" where
  "strings_Join [] sep = []"
| "strings_Join [x] sep = x"
| "strings_Join (x # y # ys) sep = x @ sep @ strings_Join (y # ys) sep"

section \<open>binary64 arithmetic\<close>

text \<open>
  A \<open>float64\<close> is an IEEE 754 binary64 number. Its finite values are the rationals
  \<open>\<plusminus> m * 2^e\<close> with \<open>m < 2^53\<close> and \<open>-1074 \<le> e \<le> 971\<close>. Values are kept as rationals;
  infinities and NaN do not arise from a 64-bit unsigned integer and a division by 100.
\<close>

definition is_binary64 :: "rat \<Rightarrow> bool" where
  "is_binary64 x =
     (\<exists>m e. \<bar>x\<bar> = of_nat m * 2 powi e \<and> m < 2 ^ 53 \<and> - 1074 \<le> e \<and> e \<le> 971)"

text \<open>The exponent \<open>e\<close> of the binade of a positive \<open>x\<close>: \<open>2^e \<le> x < 2^(e+1)\<close>.\<close>

definition floor_log2 :: "rat \<Rightarrow> int" where
  "floor_log2 x = (if 1 \<le> x then bitlen \<lfloor>x\<rfloor> - 1 else - bitlen (\<lceil>1 / x\<rceil> - 1))"

text \<open>Rounding to the nearest integer, a tie going to the even one.\<close>

definition round_half_even :: "rat \<Rightarrow> int" where
  "round_half_even q =
     (let f = \<lfloor>q\<rfloor>; d = q - of_int f
      in if d < 1 / 2 then f else if 1 / 2 < d then f + 1 else if even f then f else f + 1)"

text \<open>
  Rounding to nearest, ties to even, which every conversion and operation of Go on
  \<open>float64\<close> applies to its exact result: the result is a multiple of the unit in the last
  place of the binade of \<open>x\<close> (of the least normal binade for a subnormal \<open>x\<close>).
\<close>

definition binary64_round :: "rat \<Rightarrow> rat" where
  "binary64_round x =
     (if x = 0 then 0
      else let u = 2 powi (max (floor_log2 \<bar>x\<bar>) (- 1022) - 52)
           in sgn x * of_int (round_half_even (\<bar>x\<bar> / u)) * u)"

text \<open>The conversion \<open>float64(n)\<close> of an unsigned integer, and the division of two floats.\<close>

definition float64_of_uint :: "uint64 \<Rightarrow> rat" where
  "float64_of_uint n = binary64_round (of_nat (unat n))"

definition float64_div :: "rat \<Rightarrow> rat \<Rightarrow> rat" where
  "float64_div x y = binary64_round (x / y)"

section \<open>The adapter's data\<close>

text \<open>
  Modelled from the spec: the constants file of the adapter is not part of the sources at
  hand. The spec fixes the slot-ID separator by its example \<open>["123","456"] \<rightarrow> "123,456"\<close>
  and the size separator by the shape \<open><width>x<height>\<close>.
\<close>

definition adSlotIdSeparator :: string where
  "adSlotIdSeparator = '',''"

definition adsizeSeparator :: string where
  "adsizeSeparator = ''x''"

text \<open>
  The errors the adapter builds. Each \<open>fmt.Errorf\<close> is a constructor that keeps the
  arguments of its format:
  \<^item> \<open>BadInput m\<close>: \<open>&errortypes.BadInput{Message: m}\<close>;
  \<^item> \<open>EndpointParseError e\<close>: "failed to parse yieldlab endpoint: %v";
  \<^item> \<open>ExtRegsParseError e\<close>: "failed to parse ExtRegs in Yieldlab GDPR check: %v";
  \<^item> \<open>ExtUserParseError e\<close>: "failed to parse ExtUser in Yieldlab GDPR check: %v";
  \<^item> \<open>UnexpectedResponseCode c\<close>: "failed to resolve bids from yieldlab response:
    Unexpected response code %v";
  \<^item> \<open>BidsParseError e\<close>: "failed to parse bids response from yieldlab: %v";
  \<^item> \<open>AdslotNotFound id\<close>: "failed to find yieldlab request for adslotID %v. This is most
    likely a programming issue";
  \<^item> \<open>AdsizeParseError e\<close>: "failed to parse yieldlab adsize: %v".
\<close>

datatype error =
    BadInput string
  | EndpointParseError string
  | ExtRegsParseError string
  | ExtUserParseError string
  | UnexpectedResponseCode int
  | BidsParseError string
  | AdslotNotFound uint64
  | AdsizeParseError NumError

text \<open>\<open>openrtb_ext.ExtImpYieldlab\<close>; a nil targeting map is the empty map.\<close>

record ExtImpYieldlab =
  AdslotID :: string
  SupplyID :: string
  Targeting :: "string \<rightharpoonup> string"
  ExtId :: string

record ExtImpBidder =
  Bidder :: RawMessage

text \<open>\<open>openrtb_ext.ExtRegs\<close>: the flag is a \<open>*int8\<close>.\<close>

record ExtRegs =
  GDPR :: "8 word option"

record ExtUser =
  Consent :: string

text \<open>
  The fields of \<open>openrtb.BidRequest\<close> that the adapter reads. Of a banner or video object
  only its presence is read. Latitude and longitude are kept as the text that
  \<open>fmt.Sprintf("%v", _)\<close> prints for them.
\<close>

record Imp =
  Imp_ID :: string
  Banner :: "unit option"
  Video :: "unit option"
  Imp_Ext :: RawMessage

record User =
  BuyerUID :: string
  User_Ext :: RawMessage

record Regs =
  Regs_Ext :: RawMessage

record Geo =
  Lat :: string
  Lon :: string

record Device =
  IFA :: string
  DeviceType :: int
  ConnectionType :: "int option"
  Device_Geo :: "Geo option"
  UA :: string
  IP :: string

record App =
  App_Name :: string
  Bundle :: string

record Site =
  Page :: string

record BidRequest =
  Imps :: "Imp list"
  Req_User :: "User option"
  Req_Regs :: "Regs option"
  Req_Device :: "Device option"
  Req_App :: "App option"
  Req_Site :: "Site option"

text \<open>The vendor's response entry (\<open>bidResponse\<close>); the DSA block is never read here.\<close>

record bidResponse =
  bidResponse_ID :: uint64
  bidResponse_Price :: uint64
  Advertiser :: string
  Adsize :: string
  Pid :: uint64
  Did :: uint64
  Pvid :: string

record RequestData =
  Method :: string
  Uri :: string
  Headers :: "(string \<times> string) list"

record ResponseData =
  StatusCode :: int
  Body :: string

datatype BidType = BidTypeBanner | BidTypeVideo

text \<open>\<open>openrtb.Bid\<close>. The price is a \<open>float64\<close>, kept as the rational it denotes.\<close>

record Bid =
  Bid_ID :: string
  Bid_Price :: rat
  ImpID :: string
  CrID :: string
  DealID :: string
  Bid_W :: uint64
  Bid_H :: uint64
  NURL :: string
  AdM :: string

record TypedBid =
  TypedBid_Bid :: Bid
  TypedBid_BidType :: BidType

record BidderResponse =
  Currency :: string
  Bids :: "TypedBid list"

text \<open>\<open>url.Values\<close> and the fields of \<open>url.URL\<close> that the adapter touches.\<close>

type_synonym Values = "string \<rightharpoonup> string list"

record URL =
  Scheme :: string
  Host :: string
  URL_Path :: string
  RawQuery :: string

text \<open>
  What the adapter calls but does not define: the decoders of encoding/json for the
  types it unmarshals into (a \<open>null\<close> element of the response array is a nil pointer,
  \<open>None\<close>), net/url and path, and the three format constants (\<open>creativeID\<close>,
  \<open>adSourceURL\<close>, \<open>adSourceBanner\<close>) applied through \<open>fmt.Sprintf\<close>.
\<close>

record lib =
  json_ExtImpBidder :: "string \<Rightarrow> string + ExtImpBidder"
  json_ExtImpYieldlab :: "string \<Rightarrow> string + ExtImpYieldlab"
  json_ExtRegs :: "string \<Rightarrow> string + ExtRegs"
  json_ExtUser :: "string \<Rightarrow> string + ExtUser"
  json_bidResponses :: "string \<Rightarrow> string + bidResponse option list"
  url_Parse :: "string \<Rightarrow> string + URL"
  url_ParseQuery :: "string \<Rightarrow> Values"
  Values_Encode :: "Values \<Rightarrow> string"
  URL_String :: "URL \<Rightarrow> string"
  path_Join :: "string \<Rightarrow> string \<Rightarrow> string"
  fmt_creativeID :: "string \<Rightarrow> uint64 \<Rightarrow> string \<Rightarrow> string"
  fmt_adSourceURL :: "string \<Rightarrow> string \<Rightarrow> string \<Rightarrow> string \<Rightarrow> string"
  fmt_adSourceBanner :: "string \<Rightarrow> string"

text \<open>
  \<open>YieldlabAdapter\<close>. The cache buster and the week generator are injected functions
  without arguments.
\<close>

record YieldlabAdapter =
  endpoint :: string
  cacheBuster :: "unit \<Rightarrow> string"
  getWeek :: "unit \<Rightarrow> string"

section \<open>Building the outbound request\<close>

text \<open>
  \<open>getGDPR\<close>: the flag is read whenever the request has a \<open>Regs\<close> object, the consent only
  when the request has a \<open>User\<close> object whose \<open>Ext\<close> is not nil. A flag other than 0 or 1 is
  left empty.
\<close>

definition getGDPR :: "lib \<Rightarrow> BidRequest \<Rightarrow> error + (string \<times> string)" where
  "getGDPR l request =
     (case (case Req_Regs request of
              None \<Rightarrow> Inr []
            | Some regs \<Rightarrow>
                (case json_Unmarshal (json_ExtRegs l) (RawMessage_bytes (Regs_Ext regs)) of
                   Inl err \<Rightarrow> Inl (ExtRegsParseError err)
                 | Inr extRegs \<Rightarrow>
                     Inr (case GDPR extRegs of
                            None \<Rightarrow> []
                          | Some g \<Rightarrow> if g = 0 \<or> g = 1 then Itoa (sint g) else [])))
      of
        Inl e \<Rightarrow> Inl e
      | Inr gdpr \<Rightarrow>
          (case Req_User request of
             None \<Rightarrow> Inr (gdpr, [])
           | Some u \<Rightarrow>
               (case User_Ext u of
                  None \<Rightarrow> Inr (gdpr, [])
                | Some ext \<Rightarrow>
                    (case json_Unmarshal (json_ExtUser l) ext of
                       Inl err \<Rightarrow> Inl (ExtUserParseError err)
                     | Inr extUser \<Rightarrow> Inr (gdpr, Consent extUser)))))"

text \<open>\<open>makeTargetingValues\<close>: one \<open>Set\<close> per key of the targeting map, then \<open>Encode\<close>.\<close>

definition makeTargetingValues :: "lib \<Rightarrow> ExtImpYieldlab \<Rightarrow> string" where
  "makeTargetingValues l params =
     Values_Encode l (\<lambda>k. map_option (\<lambda>v. [v]) (Targeting params k))"

text \<open>
  The query \<open>q\<close> of \<open>makeEndpointURL\<close>: it starts as the query of the configured endpoint
  (\<open>uri.Query()\<close>) and every \<open>q.Set\<close> replaces the values of its key. The result is the
  value that \<open>q.Encode()\<close> receives, or the error of \<open>getGDPR\<close>.
\<close>

definition makeEndpointURL_q ::
  "lib \<Rightarrow> YieldlabAdapter \<Rightarrow> BidRequest \<Rightarrow> ExtImpYieldlab \<Rightarrow> URL \<Rightarrow> error + Values" where
  "makeEndpointURL_q l a req params uri =
     (let q0 = url_ParseQuery l (RawQuery uri);
          q1 = q0(''content'' \<mapsto> [''json''], ''pvid'' \<mapsto> [''true''],
                  ''ts'' \<mapsto> [cacheBuster a ()], ''t'' \<mapsto> [makeTargetingValues l params]);
          q2 = (case Req_User req of
                  None \<Rightarrow> q1
                | Some u \<Rightarrow>
                    if BuyerUID u \<noteq> [] then q1(''ids'' \<mapsto> [''ylid:'' @ BuyerUID u]) else q1);
          q3 = (case Req_Device req of
                  None \<Rightarrow> q2
                | Some d \<Rightarrow>
                    (let d1 = q2(''yl_rtb_ifa'' \<mapsto> [IFA d],
                                 ''yl_rtb_devicetype'' \<mapsto> [Itoa (DeviceType d)]);
                         d2 = (case ConnectionType d of
                                 None \<Rightarrow> d1
                               | Some ct \<Rightarrow> d1(''yl_rtb_connectiontype'' \<mapsto> [Itoa ct]))
                     in case Device_Geo d of
                          None \<Rightarrow> d2
                        | Some g \<Rightarrow> d2(''lat'' \<mapsto> [Lat g], ''lon'' \<mapsto> [Lon g])));
          q4 = (case Req_App req of
                  None \<Rightarrow> q3
                | Some app \<Rightarrow>
                    q3(''pubappname'' \<mapsto> [App_Name app], ''pubbundlename'' \<mapsto> [Bundle app]))
      in case getGDPR l req of
           Inl err \<Rightarrow> Inl err
         | Inr (gdpr, consent) \<Rightarrow>
             Inr (if gdpr \<noteq> [] \<and> consent \<noteq> []
                  then q4(''gdpr'' \<mapsto> [gdpr], ''consent'' \<mapsto> [consent])
                  else q4))"

definition makeEndpointURL ::
  "lib \<Rightarrow> YieldlabAdapter \<Rightarrow> BidRequest \<Rightarrow> ExtImpYieldlab \<Rightarrow> error + string" where
  "makeEndpointURL l a req params =
     (case url_Parse l (endpoint a) of
        Inl err \<Rightarrow> Inl (EndpointParseError err)
      | Inr parsed \<Rightarrow>
          (let uri = parsed\<lparr>URL_Path := path_Join l (URL_Path parsed) (AdslotID params)\<rparr>
           in case makeEndpointURL_q l a req params uri of
                Inl err \<Rightarrow> Inl err
              | Inr q \<Rightarrow> Inr (URL_String l (uri\<lparr>RawQuery := Values_Encode l q\<rparr>))))"

text \<open>\<open>parseRequest\<close>: the loop over \<open>request.Imp\<close>, stopping at the first payload that fails.\<close>

fun parseRequest_loop ::
  "lib \<Rightarrow> Imp list \<Rightarrow> ExtImpYieldlab list \<Rightarrow> error + ExtImpYieldlab list" where
  "parseRequest_loop l [] params = Inr params"
| "parseRequest_loop l (imp # imps) params =
     (case json_Unmarshal (json_ExtImpBidder l) (RawMessage_bytes (Imp_Ext imp)) of
        Inl err \<Rightarrow> Inl (BadInput err)
      | Inr bidderExt \<Rightarrow>
          (case json_Unmarshal (json_ExtImpYieldlab l) (RawMessage_bytes (Bidder bidderExt)) of
             Inl err \<Rightarrow> Inl (BadInput err)
           | Inr yieldlabExt \<Rightarrow> parseRequest_loop l imps (params @ [yieldlabExt])))"

definition parseRequest :: "lib \<Rightarrow> BidRequest \<Rightarrow> error + ExtImpYieldlab list" where
  "parseRequest l request = parseRequest_loop l (Imps request) []"

text \<open>
  \<open>mergeParams\<close>: the loop appends every slot ID and copies every targeting entry into the
  one map, a later entry replacing an earlier one of the same key. It has no failure path.
\<close>

fun mergeParams_loop ::
  "ExtImpYieldlab list \<Rightarrow> string list \<Rightarrow> (string \<rightharpoonup> string)
     \<Rightarrow> string list \<times> (string \<rightharpoonup> string)" where
  "mergeParams_loop [] adSlotIds targeting = (adSlotIds, targeting)"
| "mergeParams_loop (p # ps) adSlotIds targeting =
     mergeParams_loop ps (adSlotIds @ [AdslotID p]) (targeting ++ Targeting p)"

definition mergeParams :: "ExtImpYieldlab list \<Rightarrow> error + ExtImpYieldlab" where
  "mergeParams params =
     (case mergeParams_loop params [] Map.empty of
        (adSlotIds, targeting) \<Rightarrow>
          Inr \<lparr>AdslotID = strings_Join adSlotIds adSlotIdSeparator, SupplyID = [],
               Targeting = targeting, ExtId = []\<rparr>)"

definition makeRequest ::
  "lib \<Rightarrow> YieldlabAdapter \<Rightarrow> BidRequest \<Rightarrow> RequestData option \<times> error list" where
  "makeRequest l a request =
     (case parseRequest l request of
        Inl err \<Rightarrow> (None, [err])
      | Inr params \<Rightarrow>
          (case mergeParams params of
             Inl err \<Rightarrow> (None, [err])
           | Inr mergedParams \<Rightarrow>
               (case makeEndpointURL l a request mergedParams of
                  Inl err \<Rightarrow> (None, [err])
                | Inr bidURL \<Rightarrow>
                    (let h0 = [(''Accept'', ''application/json'')];
                         h1 = (case Req_Site request of
                                 None \<Rightarrow> h0
                               | Some s \<Rightarrow> h0 @ [(''Referer'', Page s)]);
                         h2 = (case Req_Device request of
                                 None \<Rightarrow> h1
                               | Some d \<Rightarrow>
                                   h1 @ [(''User-Agent'', UA d), (''X-Forwarded-For'', IP d)]);
                         h3 = (case Req_User request of
                                 None \<Rightarrow> h2
                               | Some u \<Rightarrow> h2 @ [(''Cookie'', ''id='' @ BuyerUID u)])
                     in (Some \<lparr>Method = ''GET'', Uri = bidURL, Headers = h3\<rparr>, [])))))"

definition MakeRequests ::
  "lib \<Rightarrow> YieldlabAdapter \<Rightarrow> BidRequest \<Rightarrow> RequestData list \<times> error list" where
  "MakeRequests l a request =
     (case makeRequest l a request of
        (adapterReq, errors) \<Rightarrow>
          ((case adapterReq of None \<Rightarrow> [] | Some r \<Rightarrow> [r]), errors))"

section \<open>Mapping the response\<close>

definition splitSize :: "string \<Rightarrow> error + (uint64 \<times> uint64)" where
  "splitSize sz =
     (let sizeParts = strings_Split sz adsizeSeparator
      in if length sizeParts \<noteq> 2 then Inr (0, 0)
         else case ParseUint (sizeParts ! 0) of
                Inl err \<Rightarrow> Inl (AdsizeParseError err)
              | Inr width \<Rightarrow>
                  (case ParseUint (sizeParts ! 1) of
                     Inl err \<Rightarrow> Inl (AdsizeParseError err)
                   | Inr height \<Rightarrow> Inr (width, height)))"

definition findBidReq :: "uint64 \<Rightarrow> ExtImpYieldlab list \<Rightarrow> ExtImpYieldlab option" where
  "findBidReq adslotID params = find (\<lambda>p. AdslotID p = FormatUint adslotID) params"

definition makeCreativeID :: "lib \<Rightarrow> YieldlabAdapter \<Rightarrow> ExtImpYieldlab \<Rightarrow> bidResponse \<Rightarrow> string" where
  "makeCreativeID l a req bid = fmt_creativeID l (AdslotID req) (Pid bid) (getWeek a ())"

text \<open>
  The values \<open>val\<close> of \<open>makeAdSourceURL\<close>, as \<open>val.Encode()\<close> receives them. An error of
  \<open>getGDPR\<close> is dropped here.
\<close>

definition makeAdSourceURL_val ::
  "lib \<Rightarrow> YieldlabAdapter \<Rightarrow> BidRequest \<Rightarrow> ExtImpYieldlab \<Rightarrow> bidResponse \<Rightarrow> Values" where
  "makeAdSourceURL_val l a req ext res =
     (let v0 = Map.empty(''ts'' \<mapsto> [cacheBuster a ()], ''id'' \<mapsto> [ExtId ext],
                         ''pvid'' \<mapsto> [Pvid res]);
          v1 = (case Req_User req of
                  None \<Rightarrow> v0
                | Some u \<Rightarrow> v0(''ids'' \<mapsto> [''ylid:'' @ BuyerUID u]))
      in case getGDPR l req of
           Inl err \<Rightarrow> v1
         | Inr (gdpr, consent) \<Rightarrow>
             if gdpr \<noteq> [] \<and> consent \<noteq> []
             then v1(''gdpr'' \<mapsto> [gdpr], ''consent'' \<mapsto> [consent])
             else v1)"

definition makeAdSourceURL ::
  "lib \<Rightarrow> YieldlabAdapter \<Rightarrow> BidRequest \<Rightarrow> ExtImpYieldlab \<Rightarrow> bidResponse \<Rightarrow> string" where
  "makeAdSourceURL l a req ext res =
     fmt_adSourceURL l (AdslotID ext) (SupplyID ext) (Adsize res)
       (Values_Encode l (makeAdSourceURL_val l a req ext res))"

definition makeBannerAdSource ::
  "lib \<Rightarrow> YieldlabAdapter \<Rightarrow> BidRequest \<Rightarrow> ExtImpYieldlab \<Rightarrow> bidResponse \<Rightarrow> string" where
  "makeBannerAdSource l a req ext res = fmt_adSourceBanner l (makeAdSourceURL l a req ext res)"

text \<open>
  The loop of \<open>MakeBids\<close> over the decoded entries, \<open>i\<close> being the index of the entry at
  the head and \<open>acc\<close> the bids appended so far. Reading a field of a nil entry panics;
  \<open>internalRequest.Imp[i]\<close> panics when \<open>i\<close> is not below the number of impressions, and
  it is evaluated after the size and the slot lookup have succeeded.
\<close>

fun MakeBids_loop ::
  "lib \<Rightarrow> YieldlabAdapter \<Rightarrow> BidRequest \<Rightarrow> ExtImpYieldlab list \<Rightarrow> nat
     \<Rightarrow> bidResponse option list \<Rightarrow> TypedBid list
     \<Rightarrow> (BidderResponse option \<times> error list) outcome" where
  "MakeBids_loop l a internalRequest requests i [] acc =
     Return (Some \<lparr>Currency = ''EUR'', Bids = acc\<rparr>, [])"
| "MakeBids_loop l a internalRequest requests i (entry # rest) acc =
     (case entry of
        None \<Rightarrow> Panic NilPointerDereference
      | Some bid \<Rightarrow>
          (case splitSize (Adsize bid) of
             Inl err \<Rightarrow> Return (None, [err])
           | Inr (width, height) \<Rightarrow>
               (case findBidReq (bidResponse_ID bid) requests of
                  None \<Rightarrow> Return (None, [AdslotNotFound (bidResponse_ID bid)])
                | Some req \<Rightarrow>
                    if length (Imps internalRequest) \<le> i
                    then Panic (IndexOutOfRange i (length (Imps internalRequest)))
                    else
                      (let imp = Imps internalRequest ! i;
                           responseBid =
                             \<lparr>Bid_ID = FormatUint (bidResponse_ID bid),
                              Bid_Price = float64_div (float64_of_uint (bidResponse_Price bid)) 100,
                              ImpID = Imp_ID imp,
                              CrID = makeCreativeID l a req bid,
                              DealID = FormatUint (Pid bid),
                              Bid_W = width, Bid_H = height, NURL = [], AdM = []\<rparr>
                       in if Video imp \<noteq> None
                          then MakeBids_loop l a internalRequest requests (Suc i) rest
                                 (acc @ [\<lparr>TypedBid_Bid =
                                            responseBid\<lparr>NURL :=
                                              makeAdSourceURL l a internalRequest req bid\<rparr>,
                                          TypedBid_BidType = BidTypeVideo\<rparr>])
                          else if Banner imp \<noteq> None
                          then MakeBids_loop l a internalRequest requests (Suc i) rest
                                 (acc @ [\<lparr>TypedBid_Bid =
                                            responseBid\<lparr>AdM :=
                                              makeBannerAdSource l a internalRequest req bid\<rparr>,
                                          TypedBid_BidType = BidTypeBanner\<rparr>])
                          else MakeBids_loop l a internalRequest requests (Suc i) rest acc))))"

definition MakeBids ::
  "lib \<Rightarrow> YieldlabAdapter \<Rightarrow> BidRequest \<Rightarrow> RequestData \<Rightarrow> ResponseData
     \<Rightarrow> (BidderResponse option \<times> error list) outcome" where
  "MakeBids l a internalRequest externalRequest response =
     (if StatusCode response \<noteq> 200
      then Return (None, [UnexpectedResponseCode (StatusCode response)])
      else case json_Unmarshal (json_bidResponses l) (Body response) of
             Inl err \<Rightarrow> Return (None, [BidsParseError err])
           | Inr bids \<Rightarrow>
               (case parseRequest l internalRequest of
                  Inl err \<Rightarrow> Return (None, [err])
                | Inr requests \<Rightarrow> MakeBids_loop l a internalRequest requests 0 bids []))"

section \<open>The cache client\<close>

text \<open>
  A parsed JSON document, as gjson sees it. \<open>gjson.Get\<close> with a plain key finds the first
  member of that name in an object and nothing in any other value.
\<close>

datatype json =
    JNull
  | JBool bool
  | JNumber string
  | JString string
  | JArray "json list"
  | JObject "(string \<times> json) list"

definition gjson_Get :: "json \<Rightarrow> string \<Rightarrow> json option" where
  "gjson_Get v key = (case v of JObject members \<Rightarrow> map_of members key | _ \<Rightarrow> None)"

record HTTPResponse =
  Resp_StatusCode :: int
  Resp_Body :: string

text \<open>
  What the client calls but does not define: \<open>json.Marshal\<close> of a raw message,
  \<open>http.NewRequest\<close> (its error, if any), the exchange \<open>ctxhttp.Do\<close> with the body that
  \<open>ioutil.ReadAll\<close> read, and gjson's parser (\<open>None\<close> for a body that is not valid JSON).
\<close>

record cache_lib =
  json_Marshal :: "RawMessage \<Rightarrow> string + string"
  http_NewRequest :: "string \<Rightarrow> string \<Rightarrow> string \<Rightarrow> string option"
  ctxhttp_Do :: "string \<Rightarrow> string \<Rightarrow> string + HTTPResponse"
  gjson_Parse :: "string \<Rightarrow> json option"

record clientImpl =
  putUrl :: string

definition dq :: string where
  "dq = [CHR 0x22]"

definition encodeValueToBuffer :: "cache_lib \<Rightarrow> RawMessage \<Rightarrow> bool \<Rightarrow> string \<Rightarrow> string + string" where
  "encodeValueToBuffer l v leadingComma buffer =
     (let b1 = (if leadingComma then buffer @ '','' else buffer)
      in case json_Marshal l v of
           Inl err \<Rightarrow> Inl err
         | Inr encodedBytes \<Rightarrow>
             Inr (b1 @ ''{'' @ dq @ ''type'' @ dq @ '':'' @ dq @ ''json'' @ dq @ '',''
                     @ dq @ ''value'' @ dq @ '':'' @ encodedBytes @ ''}''))"

fun encodeValues_loop :: "cache_lib \<Rightarrow> RawMessage list \<Rightarrow> nat \<Rightarrow> string \<Rightarrow> string + string" where
  "encodeValues_loop l [] i buf = Inr buf"
| "encodeValues_loop l (v # vs) i buf =
     (case encodeValueToBuffer l v (i \<noteq> 0) buf of
        Inl err \<Rightarrow> Inl err
      | Inr b \<Rightarrow> encodeValues_loop l vs (Suc i) b)"

definition encodeValues :: "cache_lib \<Rightarrow> RawMessage list \<Rightarrow> string + string" where
  "encodeValues l vs =
     (case encodeValues_loop l vs 0 (''{'' @ dq @ ''puts'' @ dq @ '':['') of
        Inl err \<Rightarrow> Inl err
      | Inr buf \<Rightarrow> Inr (buf @ '']}''))"

text \<open>
  The callback of \<open>responses.ForEach\<close>: an element whose \<open>uuid\<close> is not a string is skipped,
  the index advancing all the same; the assignment \<open>uuidsToReturn[currentIndex] = ...\<close>
  panics when the index is not below the length of the slice.
\<close>

fun PutJson_forEach :: "json list \<Rightarrow> nat \<Rightarrow> string list \<Rightarrow> string list outcome" where
  "PutJson_forEach [] currentIndex uuidsToReturn = Return uuidsToReturn"
| "PutJson_forEach (response # rest) currentIndex uuidsToReturn =
     (case gjson_Get response ''uuid'' of
        Some (JString s) \<Rightarrow>
          if length uuidsToReturn \<le> currentIndex
          then Panic (IndexOutOfRange currentIndex (length uuidsToReturn))
          else PutJson_forEach rest (Suc currentIndex) (uuidsToReturn[currentIndex := s])
      | _ \<Rightarrow> PutJson_forEach rest (Suc currentIndex) uuidsToReturn)"

text \<open>\<open>clientImpl.PutJson\<close>; what it logs is not part of its result.\<close>

definition PutJson :: "cache_lib \<Rightarrow> clientImpl \<Rightarrow> RawMessage list \<Rightarrow> string list outcome" where
  "PutJson l c vs =
     (if length vs < 1 then Return []
      else
        (let uuidsToReturn = replicate (length vs) []
         in case encodeValues l vs of
              Inl err \<Rightarrow> Return uuidsToReturn
            | Inr postBody \<Rightarrow>
                (case http_NewRequest l ''POST'' (putUrl c) postBody of
                   Some err \<Rightarrow> Return uuidsToReturn
                 | None \<Rightarrow>
                     (case ctxhttp_Do l (putUrl c) postBody of
                        Inl err \<Rightarrow> Return uuidsToReturn
                      | Inr anResp \<Rightarrow>
                          if Resp_StatusCode anResp \<noteq> 200 then Return uuidsToReturn
                          else
                            (case gjson_Parse l (Resp_Body anResp) of
                               None \<Rightarrow> Return uuidsToReturn
                             | Some doc \<Rightarrow>
                                 (case gjson_Get doc ''responses'' of
                                    Some (JArray responses) \<Rightarrow>
                                      PutJson_forEach responses 0 uuidsToReturn
                                  | _ \<Rightarrow> Return uuidsToReturn))))))"

section \<open>Example inputs\<close>

text \<open>
  Stand-ins for the library functions on the payloads of the examples below: each decoder
  knows the few texts that the examples use (written without quotation marks) and rejects
  every other input; the encoder of query values lists the keys it knows in sorted order.
\<close>

definition exampleParams1 :: ExtImpYieldlab where
  "exampleParams1 =
     \<lparr>AdslotID = ''123'', SupplyID = [],
      Targeting = [''key'' \<mapsto> ''first'', ''only'' \<mapsto> ''kept''], ExtId = []\<rparr>"

definition exampleParams2 :: ExtImpYieldlab where
  "exampleParams2 =
     \<lparr>AdslotID = ''456'', SupplyID = [], Targeting = [''key'' \<mapsto> ''second''], ExtId = []\<rparr>"

definition exampleEntry :: "uint64 \<Rightarrow> string \<Rightarrow> bidResponse" where
  "exampleEntry n sz =
     \<lparr>bidResponse_ID = n, bidResponse_Price = 150, Advertiser = ''yieldlab'', Adsize = sz,
      Pid = 7, Did = 8, Pvid = ''abc''\<rparr>"

definition exampleKeys :: "string list" where
  "exampleKeys = [''consent'', ''content'', ''gdpr'', ''id'', ''ids'', ''pvid'', ''t'', ''ts'']"

definition exampleLib :: lib where
  "exampleLib =
     \<lparr>json_ExtImpBidder =
        (\<lambda>s. if s = ''{bidder:{adslotId:123}}'' then Inr \<lparr>Bidder = Some ''{adslotId:123}''\<rparr>
             else Inl ''invalid character''),
      json_ExtImpYieldlab =
        (\<lambda>s. if s = ''{adslotId:123}''
             then Inr \<lparr>AdslotID = ''123'', SupplyID = ''456'', Targeting = Map.empty,
                       ExtId = ''ext''\<rparr>
             else Inl ''invalid character''),
      json_ExtRegs =
        (\<lambda>s. if s = ''{gdpr:1}'' then Inr \<lparr>GDPR = Some 1\<rparr>
             else if s = ''{gdpr:2}'' then Inr \<lparr>GDPR = Some 2\<rparr>
             else if s = ''{}'' then Inr \<lparr>GDPR = None\<rparr>
             else Inl ''invalid character''),
      json_ExtUser =
        (\<lambda>s. if s = ''{consent:abc}'' then Inr \<lparr>Consent = ''abc''\<rparr>
             else if s = ''{}'' then Inr \<lparr>Consent = []\<rparr>
             else Inl ''invalid character''),
      json_bidResponses =
        (\<lambda>s. if s = ''[123]'' then Inr [Some (exampleEntry 123 ''300x250'')]
             else if s = ''[123:728]'' then Inr [Some (exampleEntry 123 ''728'')]
             else if s = ''[123:300xabc]'' then Inr [Some (exampleEntry 123 ''300xabc'')]
             else if s = ''[123:728,123:300x250]''
             then Inr [Some (exampleEntry 123 ''728''), Some (exampleEntry 123 ''300x250'')]
             else if s = ''[123:728,123:300xabc]''
             then Inr [Some (exampleEntry 123 ''728''), Some (exampleEntry 123 ''300xabc'')]
             else if s = ''[123:84442493013197175]''
             then Inr [Some ((exampleEntry 123 ''300x250'')
                               \<lparr>bidResponse_Price := 84442493013197175\<rparr>)]
             else if s = ''[123,123]''
             then Inr [Some (exampleEntry 123 ''300x250''), Some (exampleEntry 123 ''300x250'')]
             else if s = ''[123,123,999]''
             then Inr [Some (exampleEntry 123 ''300x250''), Some (exampleEntry 123 ''300x250''),
                       Some (exampleEntry 999 ''300x250'')]
             else Inl ''invalid character''),
      url_Parse =
        (\<lambda>s. if s = ''https://ad.yieldlab.net/yp/''
             then Inr \<lparr>Scheme = ''https'', Host = ''ad.yieldlab.net'', URL_Path = ''/yp/'',
                       RawQuery = []\<rparr>
             else if s = ''https://ad.yieldlab.net/yp/?gdpr=9&consent=zzz''
             then Inr \<lparr>Scheme = ''https'', Host = ''ad.yieldlab.net'', URL_Path = ''/yp/'',
                       RawQuery = ''gdpr=9&consent=zzz''\<rparr>
             else Inl ''invalid URL''),
      url_ParseQuery =
        (\<lambda>s. if s = ''gdpr=9&consent=zzz'' then [''gdpr'' \<mapsto> [''9''], ''consent'' \<mapsto> [''zzz'']]
             else Map.empty),
      Values_Encode =
        (\<lambda>q. concat (map (\<lambda>k. case q k of None \<Rightarrow> [] | Some vs \<Rightarrow> k @ ''='' @ concat vs @ ''&'')
                         exampleKeys)),
      URL_String = (\<lambda>u. Scheme u @ ''://'' @ Host u @ URL_Path u @ ''?'' @ RawQuery u),
      path_Join = (\<lambda>x y. x @ y),
      fmt_creativeID = (\<lambda>slot pid week. slot @ FormatUint pid @ week),
      fmt_adSourceURL =
        (\<lambda>slot supply sz q. ''https://ad.yieldlab.net/d/'' @ slot @ ''/'' @ supply @ ''/'' @ sz
                               @ ''?'' @ q),
      fmt_adSourceBanner = (\<lambda>u. ''<script src='' @ u @ ''></script>'')\<rparr>"

definition exampleAdapter :: YieldlabAdapter where
  "exampleAdapter =
     \<lparr>endpoint = ''https://ad.yieldlab.net/yp/'', cacheBuster = (\<lambda>_. ''testing''),
      getWeek = (\<lambda>_. ''33'')\<rparr>"

text \<open>The same adapter, configured with an endpoint that has a query of its own.\<close>

definition exampleAdapterQuery :: YieldlabAdapter where
  "exampleAdapterQuery =
     \<lparr>endpoint = ''https://ad.yieldlab.net/yp/?gdpr=9&consent=zzz'',
      cacheBuster = (\<lambda>_. ''testing''), getWeek = (\<lambda>_. ''33'')\<rparr>"

definition exampleImp :: Imp where
  "exampleImp =
     \<lparr>Imp_ID = ''imp-1'', Banner = Some (), Video = None,
      Imp_Ext = Some ''{bidder:{adslotId:123}}''\<rparr>"

definition exampleRequest :: BidRequest where
  "exampleRequest =
     \<lparr>Imps = [exampleImp], Req_User = None, Req_Regs = None, Req_Device = None,
      Req_App = None, Req_Site = None\<rparr>"

definition exampleImpVideo :: Imp where
  "exampleImpVideo =
     \<lparr>Imp_ID = ''imp-2'', Banner = None, Video = Some (),
      Imp_Ext = Some ''{bidder:{adslotId:123}}''\<rparr>"

definition exampleRequest2 :: BidRequest where
  "exampleRequest2 =
     \<lparr>Imps = [exampleImp, exampleImpVideo], Req_User = None, Req_Regs = None,
      Req_Device = None, Req_App = None, Req_Site = None\<rparr>"

definition exampleRequestConsent :: BidRequest where
  "exampleRequestConsent =
     exampleRequest
       \<lparr>Req_User := Some \<lparr>BuyerUID = ''buyer'', User_Ext = Some ''{consent:abc}''\<rparr>,
        Req_Regs := Some \<lparr>Regs_Ext = Some ''{gdpr:1}''\<rparr>\<rparr>"

definition exampleRequestNoConsent :: BidRequest where
  "exampleRequestNoConsent =
     exampleRequest
       \<lparr>Req_User := Some \<lparr>BuyerUID = ''buyer'', User_Ext = Some ''{}''\<rparr>,
        Req_Regs := Some \<lparr>Regs_Ext = Some ''{gdpr:1}''\<rparr>\<rparr>"

definition exampleRequestBadRegs :: BidRequest where
  "exampleRequestBadRegs =
     exampleRequest
       \<lparr>Req_User := Some \<lparr>BuyerUID = ''buyer'', User_Ext = Some ''{consent:abc}''\<rparr>,
        Req_Regs := Some \<lparr>Regs_Ext = Some ''gdpr''\<rparr>\<rparr>"

definition exampleExternal :: RequestData where
  "exampleExternal = \<lparr>Method = ''GET'', Uri = [], Headers = []\<rparr>"

definition exampleMerged :: ExtImpYieldlab where
  "exampleMerged = \<lparr>AdslotID = ''123'', SupplyID = [], Targeting = Map.empty, ExtId = []\<rparr>"

definition exampleSlot :: ExtImpYieldlab where
  "exampleSlot = \<lparr>AdslotID = ''123'', SupplyID = ''456'', Targeting = Map.empty, ExtId = ''ext''\<rparr>"

text \<open>
  A cache service that answers the one value it is sent with two stored entries.
\<close>

definition exampleCacheLib :: cache_lib where
  "exampleCacheLib =
     \<lparr>json_Marshal = (\<lambda>v. Inr (case v of None \<Rightarrow> ''null'' | Some bs \<Rightarrow> bs)),
      http_NewRequest = (\<lambda>method url body. None),
      ctxhttp_Do = (\<lambda>url body. Inr \<lparr>Resp_StatusCode = 200, Resp_Body = ''{responses:[a,b]}''\<rparr>),
      gjson_Parse =
        (\<lambda>s. if s = ''{responses:[a,b]}''
             then Some (JObject [(''responses'',
                          JArray [JObject [(''uuid'', JString ''a'')],
                                  JObject [(''uuid'', JString ''b'')]])])
             else None)\<rparr>"

text \<open>
  Following the spec's words, not the code: a size has the shape \<open><width>x<height>\<close>
  when it is a decimal number, the letter x and a decimal number.
\<close>

definition sizeShape :: "string \<Rightarrow> bool" where
  "sizeShape s =
     (case strings_Split s ''x'' of
        [w, h] \<Rightarrow> w \<noteq> [] \<and> list_all isDigit w \<and> h \<noteq> [] \<and> list_all isDigit h
      | _ \<Rightarrow> False)"

section \<open>Properties of binary64 rounding\<close>

lemma bitlen_pos: "0 < n \<Longrightarrow> 1 \<le> bitlen n"
  using bitlen_eq_zero_iff [of n] bitlen_nonneg [of n] by linarith

lemma powi_nonneg_eq: "0 \<le> k \<Longrightarrow> (2 :: rat) powi k = 2 ^ nat k"
  by (simp add: power_int_def)

lemma powi_neg_eq: "0 \<le> k \<Longrightarrow> (2 :: rat) powi (- k) = 1 / 2 ^ nat k"
  by (cases "k = 0") (simp_all add: power_int_def field_simps)

lemma floor_log2_ge1:
  assumes "1 \<le> x"
  shows "2 powi floor_log2 x \<le> x" and "x < 2 powi (floor_log2 x + 1)"
proof -
  let ?n = "\<lfloor>x\<rfloor>"
  from assms have n: "0 < ?n" by simp
  have k: "1 \<le> bitlen ?n" using n by (rule bitlen_pos)
  from bitlen_bounds [OF n] have lo: "2 ^ nat (bitlen ?n - 1) \<le> ?n"
    and hi: "?n < 2 ^ nat (bitlen ?n)" by simp_all
  have "(of_int (2 ^ nat (bitlen ?n - 1)) :: rat) \<le> of_int ?n"
    using lo by (simp only: of_int_le_iff)
  also have "\<dots> \<le> x" by simp
  finally have "(2 :: rat) ^ nat (bitlen ?n - 1) \<le> x" by simp
  then show "2 powi floor_log2 x \<le> x"
    using assms k by (simp add: floor_log2_def powi_nonneg_eq)
  from hi have "?n + 1 \<le> 2 ^ nat (bitlen ?n)" by simp
  then have "(of_int (?n + 1) :: rat) \<le> of_int (2 ^ nat (bitlen ?n))"
    by (simp only: of_int_le_iff)
  then have "of_int ?n + 1 \<le> (2 :: rat) ^ nat (bitlen ?n)" by simp
  moreover have "x < of_int ?n + 1" by linarith
  ultimately have "x < (2 :: rat) ^ nat (bitlen ?n)" by linarith
  then show "x < 2 powi (floor_log2 x + 1)"
    using assms k by (simp add: floor_log2_def powi_nonneg_eq)
qed

lemma floor_log2_lt1:
  assumes "0 < x" and "x < 1"
  shows "2 powi floor_log2 x \<le> x" and "x < 2 powi (floor_log2 x + 1)"
proof -
  let ?y = "1 / x"
  let ?c = "\<lceil>?y\<rceil>"
  let ?k = "bitlen (?c - 1)"
  from assms have y: "1 < ?y" by simp
  then have c: "0 < ?c - 1" by linarith
  have k: "1 \<le> ?k" using c by (rule bitlen_pos)
  from bitlen_bounds [OF c] have lo: "2 ^ nat (?k - 1) \<le> ?c - 1"
    and hi: "?c - 1 < 2 ^ nat ?k" by simp_all
  have fl: "floor_log2 x = - ?k" using assms by (simp add: floor_log2_def)
  from hi have "?c \<le> 2 ^ nat ?k" by simp
  then have "(of_int ?c :: rat) \<le> of_int (2 ^ nat ?k)" by (simp only: of_int_le_iff)
  then have "(of_int ?c :: rat) \<le> 2 ^ nat ?k" by simp
  moreover have "?y \<le> of_int ?c" by simp
  ultimately have "?y \<le> 2 ^ nat ?k" by linarith
  then have "1 / 2 ^ nat ?k \<le> x"
    using assms(1) by (simp add: field_simps)
  then show "2 powi floor_log2 x \<le> x"
    using k by (simp add: fl powi_neg_eq)
  have "(of_int (2 ^ nat (?k - 1)) :: rat) \<le> of_int (?c - 1)"
    using lo by (simp only: of_int_le_iff)
  then have "(2 :: rat) ^ nat (?k - 1) \<le> of_int ?c - 1" by simp
  moreover have "of_int ?c - 1 < ?y" by linarith
  ultimately have "(2 :: rat) ^ nat (?k - 1) < ?y" by linarith
  then have "x < 1 / 2 ^ nat (?k - 1)"
    using assms(1) by (simp add: field_simps)
  moreover have "floor_log2 x + 1 = - (?k - 1)" using fl by simp
  ultimately show "x < 2 powi (floor_log2 x + 1)"
    using k by (simp only: powi_neg_eq [of "?k - 1"])
qed

lemma floor_log2_bounds:
  assumes "0 < x"
  shows "2 powi floor_log2 x \<le> x" and "x < 2 powi (floor_log2 x + 1)"
  using assms floor_log2_ge1 [of x] floor_log2_lt1 [of x] by (cases "1 \<le> x"; simp)+

lemma powi_less_imp: "(2 :: rat) powi a < 2 powi b \<Longrightarrow> a < b"
  using power_int_increasing [of b a "2 :: rat"] by (cases "a < b") auto

lemma floor_log2_unique:
  assumes "0 < x" and "2 powi e \<le> x" and "x < 2 powi (e + 1)"
  shows "floor_log2 x = e"
proof -
  from floor_log2_bounds [OF assms(1)] assms(2,3)
  have "(2 :: rat) powi floor_log2 x < 2 powi (e + 1)" and "(2 :: rat) powi e < 2 powi (floor_log2 x + 1)"
    by linarith+
  then have "floor_log2 x < e + 1" and "e < floor_log2 x + 1"
    by (auto dest: powi_less_imp)
  then show ?thesis by simp
qed

lemma round_half_even_of_int [simp]: "round_half_even (of_int n) = n"
  by (simp add: round_half_even_def)

lemma binary64_round_pos:
  assumes "0 < x"
  shows "binary64_round x
           = of_int (round_half_even (x / 2 powi (max (floor_log2 x) (- 1022) - 52)))
               * 2 powi (max (floor_log2 x) (- 1022) - 52)"
  using assms by (simp add: binary64_round_def Let_def)

lemma binary64_round_eval:
  assumes "0 < x" and "2 powi e \<le> x" and "x < 2 powi (e + 1)" and "- 1022 \<le> e"
  shows "binary64_round x = of_int (round_half_even (x / 2 powi (e - 52))) * 2 powi (e - 52)"
  using assms floor_log2_unique [OF assms(1,2,3)] by (simp add: binary64_round_pos)

lemma binary64_round_exact:
  assumes "is_binary64 x" and "0 \<le> x"
  shows "binary64_round x = x"
proof (cases "x = 0")
  case True
  then show ?thesis by (simp add: binary64_round_def)
next
  case False
  with assms(2) have pos: "0 < x" by simp
  from assms obtain m e where x: "x = of_nat m * 2 powi e" and m: "m < 2 ^ 53"
    and e: "- 1074 \<le> e"
    by (auto simp: is_binary64_def)
  let ?E = "floor_log2 x"
  let ?u = "max ?E (- 1022) - 52"
  have "(of_nat m :: rat) < of_nat (2 ^ 53)" using m by (simp only: of_nat_less_iff)
  then have "(of_nat m :: rat) < 2 powi 53" by simp
  then have "x < 2 powi 53 * 2 powi e"
    unfolding x by (intro mult_strict_right_mono) simp_all
  also have "\<dots> = 2 powi (e + 53)" by (simp add: power_int_add)
  finally have "x < 2 powi (e + 53)" .
  with floor_log2_bounds(1) [OF pos] have "(2 :: rat) powi ?E < 2 powi (e + 53)" by linarith
  then have "?E < e + 53" by (rule powi_less_imp)
  with e have u: "?u \<le> e" by simp
  have "x / 2 powi ?u = of_nat m * 2 powi (e - ?u)"
    unfolding x by (simp add: power_int_diff)
  also have "\<dots> = of_nat m * 2 ^ nat (e - ?u)"
    using u by (simp add: powi_nonneg_eq)
  also have "\<dots> = of_int (int m * 2 ^ nat (e - ?u))" by simp
  finally have q: "x / 2 powi ?u = of_int (int m * 2 ^ nat (e - ?u))" .
  have "binary64_round x = of_int (round_half_even (x / 2 powi ?u)) * 2 powi ?u"
    using pos by (rule binary64_round_pos)
  also have "\<dots> = (x / 2 powi ?u) * 2 powi ?u"
    unfolding q by (simp only: round_half_even_of_int)
  also have "\<dots> = x" by simp
  finally show ?thesis .
qed

lemma is_binary64_small: "n < 2 ^ 53 \<Longrightarrow> is_binary64 (of_nat n)"
  unfolding is_binary64_def by (rule exI [of _ n], rule exI [of _ 0]) simp

lemma round_half_even_down:
  "of_int f \<le> q \<Longrightarrow> q - of_int f < 1 / 2 \<Longrightarrow> round_half_even q = f"
proof -
  assume a: "of_int f \<le> q" "q - of_int f < 1 / 2"
  then have "\<lfloor>q\<rfloor> = f" by (intro floor_unique) linarith+
  with a show ?thesis by (simp add: round_half_even_def Let_def)
qed

lemma round_half_even_up:
  "1 / 2 < q - of_int f \<Longrightarrow> q < of_int f + 1 \<Longrightarrow> round_half_even q = f + 1"
proof -
  assume a: "1 / 2 < q - of_int f" "q < of_int f + 1"
  then have "\<lfloor>q\<rfloor> = f" by (intro floor_unique) linarith+
  with a show ?thesis by (simp add: round_half_even_def Let_def)
qed

text \<open>The rounded value is within half a unit in the last place of the exact one.\<close>

lemma round_half_even_error: "\<bar>of_int (round_half_even q) - q\<bar> \<le> 1 / 2"
proof -
  have "of_int \<lfloor>q\<rfloor> \<le> q" and "q < of_int \<lfloor>q\<rfloor> + 1" by linarith+
  then show ?thesis
    by (auto simp: round_half_even_def Let_def abs_le_iff)
qed

lemma binary64_round_error:
  assumes "0 < x"
  shows "\<bar>binary64_round x - x\<bar> \<le> 2 powi (max (floor_log2 x) (- 1022) - 52) / 2"
proof -
  let ?u = "(2 :: rat) powi (max (floor_log2 x) (- 1022) - 52)"
  have u: "0 < ?u" by simp
  have "binary64_round x - x = (of_int (round_half_even (x / ?u)) - x / ?u) * ?u"
    using assms u by (simp add: binary64_round_pos left_diff_distrib)
  then have "\<bar>binary64_round x - x\<bar> = \<bar>of_int (round_half_even (x / ?u)) - x / ?u\<bar> * ?u"
    using u by (simp add: abs_mult)
  also have "\<dots> \<le> (1 / 2) * ?u"
    using round_half_even_error [of "x / ?u"] u by (intro mult_right_mono) simp_all
  finally show ?thesis by simp
qed

text \<open>The price of the example entries: 150 minor units are 1.5 major units.\<close>

lemma float64_price_150 [simp]: "float64_div (float64_of_uint 150) 100 = 3 / 2"
proof -
  have "binary64_round 150 = 150"
    using binary64_round_exact [of 150] is_binary64_small [of 150] by simp
  moreover have "binary64_round (150 / 100) = 3 / 2"
  proof -
    have "binary64_round (150 / 100)
            = of_int (round_half_even ((150 / 100) / 2 powi (0 - 52))) * 2 powi (0 - 52)"
      by (rule binary64_round_eval) simp_all
    also have "\<dots> = 3 / 2"
      by (simp add: round_half_even_def Let_def)
    finally show ?thesis .
  qed
  ultimately show ?thesis
    by (simp add: float64_div_def float64_of_uint_def)
qed

section \<open>Evaluating the examples\<close>

lemma FormatUint_nat_numeral [simp]:
  "FormatUint_nat (numeral k) =
     (if (numeral k :: nat) < 10 then [''0123456789'' ! numeral k]
      else FormatUint_nat (numeral k div 10) @ [''0123456789'' ! (numeral k mod 10)])"
  by (rule FormatUint_nat.simps)

lemma FormatUint_nat_0 [simp]: "FormatUint_nat 0 = ''0''"
  by (simp add: FormatUint_nat.simps [of 0])

lemma FormatUint_nat_1 [simp]: "FormatUint_nat (Suc 0) = ''1''"
  by (simp add: FormatUint_nat.simps [of "Suc 0"])

lemmas ex_defs = exampleLib_def exampleAdapter_def exampleImp_def exampleRequest_def
  exampleExternal_def exampleEntry_def exampleKeys_def exampleRequestConsent_def
  exampleRequestNoConsent_def exampleRequestBadRegs_def exampleAdapterQuery_def
  exampleImpVideo_def exampleRequest2_def

lemmas eval_defs = MakeBids_def json_Unmarshal_def parseRequest_def RawMessage_bytes_def
  splitSize_def strings_Split_def adsizeSeparator_def ParseUint_def isDigit_def digitVal_def
  maxUint64_def findBidReq_def FormatUint_def makeCreativeID_def makeBannerAdSource_def
  makeAdSourceURL_def makeAdSourceURL_val_def getGDPR_def

lemmas url_defs = makeEndpointURL_def makeEndpointURL_q_def makeTargetingValues_def getGDPR_def
  json_Unmarshal_def RawMessage_bytes_def Itoa_def exampleMerged_def

text \<open>
  The end-to-end scenario of the spec: one banner line-item with slot 123 and the entry
  \<open>{id 123, price 150, adsize 300x250}\<close> give one banner bid of price 1.5, 300 by 250.
\<close>

lemma MakeBids_example_banner:
  "MakeBids exampleLib exampleAdapter exampleRequest exampleExternal
       \<lparr>StatusCode = 200, Body = ''[123]''\<rparr>
     = Return
         (Some \<lparr>Currency = ''EUR'',
                Bids =
                  [\<lparr>TypedBid_Bid =
                      \<lparr>Bid_ID = ''123'', Bid_Price = 3 / 2, ImpID = ''imp-1'',
                       CrID = ''123733'', DealID = ''7'', Bid_W = 300, Bid_H = 250, NURL = [],
                       AdM = ''<script src=https://ad.yieldlab.net/d/123/456/300x250?id=ext&pvid=abc&ts=testing&></script>''\<rparr>,
                    TypedBid_BidType = BidTypeBanner\<rparr>]\<rparr>,
          [])"
  by (simp add: eval_defs ex_defs)

section \<open>Response entries without a line-item\<close>

lemma MakeBids_loop_unmatched:
  "Some b \<in> set bids \<Longrightarrow> findBidReq (bidResponse_ID b) requests = None \<Longrightarrow>
   MakeBids_loop l a req requests i bids acc = Return r \<Longrightarrow> \<exists>e. r = (None, [e])"
proof (induction bids arbitrary: i acc)
  case Nil
  then show ?case by simp
next
  case (Cons entry rest)
  show ?case
  proof (cases "entry = Some b")
    case True
    with Cons.prems(2,3) show ?thesis
      by (auto split: sum.splits)
  next
    case False
    with Cons.prems(1) have "Some b \<in> set rest" by simp
    note IH = Cons.IH [OF this Cons.prems(2)]
    from Cons.prems(3) show ?thesis
      by (auto simp: Let_def split: option.splits sum.splits if_splits dest: IH)
  qed
qed

lemma MakeBids_unmatched_returns_one_error:
  assumes "StatusCode response = 200"
    and "json_Unmarshal (json_bidResponses l) (Body response) = Inr bids"
    and "parseRequest l req = Inr requests"
    and "Some b \<in> set bids" and "findBidReq (bidResponse_ID b) requests = None"
    and "MakeBids l a req ext response = Return r"
  shows "\<exists>e. r = (None, [e])"
  using assms MakeBids_loop_unmatched [of b bids requests l a req 0 "[]" r]
  by (simp add: MakeBids_def)

text \<open>
  C1. An entry whose id is the slot ID of no line-item should make \<open>MakeBids\<close> return no
  bids and exactly one error, whatever the other entries are. Whenever \<open>MakeBids\<close>
  returns, that is so (\<open>MakeBids_unmatched_returns_one_error\<close>). But with one line-item
  of slot 123 and the entries 123, 123, 999 the second entry is looked up at index 1 of
  the one-element list of line-items, and \<open>MakeBids\<close> panics before it reaches the
  entry 999.
\<close>

theorem MakeBids_unmatched_after_extra_entry_panics:
  "MakeBids exampleLib exampleAdapter exampleRequest exampleExternal
       \<lparr>StatusCode = 200, Body = ''[123,123,999]''\<rparr>
     = Panic (IndexOutOfRange 1 1)"
  by (simp add: eval_defs ex_defs)

section \<open>Parsing the size\<close>

lemma strings_Split_from_count:
  "length (strings_Split_from [x] cur s) = Suc (length (filter (\<lambda>c. c = x) s))"
  by (induction s arbitrary: cur) auto

lemma splitSize_parts:
  "length (strings_Split s adsizeSeparator) = Suc (length (filter (\<lambda>c. c = CHR ''x'') s))"
  by (simp add: strings_Split_def adsizeSeparator_def strings_Split_from_count)

lemma splitSize_error_iff:
  "splitSize s = Inl err \<longleftrightarrow>
     (\<exists>w h e. strings_Split s adsizeSeparator = [w, h] \<and> err = AdsizeParseError e
        \<and> (ParseUint w = Inl e \<or> (\<exists>n. ParseUint w = Inr n) \<and> ParseUint h = Inl e))"
proof (cases "length (strings_Split s adsizeSeparator) = 2")
  case False
  then show ?thesis by (auto simp: splitSize_def)
next
  case True
  then obtain w h where wh: "strings_Split s adsizeSeparator = [w, h]"
    by (cases "strings_Split s adsizeSeparator" rule: list.exhaust)
       (auto simp: length_Suc_conv)
  then show ?thesis
    by (auto simp: splitSize_def split: sum.splits)
qed

lemma MakeBids_loop_processed_prefix:
  "list_all (\<lambda>e. \<exists>x w h r. e = Some x \<and> splitSize (Adsize x) = Inr (w, h)
                     \<and> findBidReq (bidResponse_ID x) requests = Some r) pre \<Longrightarrow>
   i + length pre \<le> length (Imps req) \<Longrightarrow>
   \<exists>acc'. MakeBids_loop l a req requests i (pre @ rest) acc
            = MakeBids_loop l a req requests (i + length pre) rest acc'"
proof (induction pre arbitrary: i acc)
  case Nil
  then show ?case by auto
next
  case (Cons e pre)
  from Cons.prems(1) obtain x w h r where
    e: "e = Some x" "splitSize (Adsize x) = Inr (w, h)"
       "findBidReq (bidResponse_ID x) requests = Some r"
    and pre: "list_all (\<lambda>e. \<exists>x w h r. e = Some x \<and> splitSize (Adsize x) = Inr (w, h)
                     \<and> findBidReq (bidResponse_ID x) requests = Some r) pre"
    by auto
  from Cons.prems(2) have i: "i < length (Imps req)" "Suc i + length pre \<le> length (Imps req)"
    by simp_all
  from Cons.IH [OF pre i(2)] have
    IH: "\<And>acc. \<exists>acc'. MakeBids_loop l a req requests (Suc i) (pre @ rest) acc
            = MakeBids_loop l a req requests (Suc (i + length pre)) rest acc'"
    by simp
  show ?case
    using e i(1) IH by (simp add: Let_def)
qed

lemma MakeBids_loop_size_error_origin:
  "MakeBids_loop l a req requests i bids acc = Return (None, [AdsizeParseError e]) \<Longrightarrow>
   \<exists>pre b post. bids = pre @ Some b # post
      \<and> (pre = [] \<or> i + length pre \<le> length (Imps req))
      \<and> list_all (\<lambda>e. \<exists>x w h r. e = Some x \<and> splitSize (Adsize x) = Inr (w, h)
                     \<and> findBidReq (bidResponse_ID x) requests = Some r) pre
      \<and> splitSize (Adsize b) = Inl (AdsizeParseError e)"
proof (induction bids arbitrary: i acc)
  case Nil
  then show ?case by simp
next
  case (Cons entry rest)
  from Cons.prems obtain x where x: "entry = Some x"
    by (cases entry) auto
  show ?case
  proof (cases "splitSize (Adsize x)")
    case (Inl err)
    with Cons.prems x have "splitSize (Adsize x) = Inl (AdsizeParseError e)" by simp
    then have "entry # rest = [] @ Some x # rest
      \<and> (([] :: bidResponse option list) = [] \<or> i + length ([] :: bidResponse option list) \<le> length (Imps req))
      \<and> list_all (\<lambda>e. \<exists>x w h r. e = Some x \<and> splitSize (Adsize x) = Inr (w, h)
                     \<and> findBidReq (bidResponse_ID x) requests = Some r) []
      \<and> splitSize (Adsize x) = Inl (AdsizeParseError e)"
      using x Cons.prems by (auto split: option.splits sum.splits if_splits)
    then show ?thesis by blast
  next
    case (Inr wh)
    obtain w h where wh: "wh = (w, h)" by (cases wh)
    from Cons.prems x Inr wh obtain r where
      r: "findBidReq (bidResponse_ID x) requests = Some r" and i: "i < length (Imps req)"
      by (auto split: option.splits if_splits)
    from Cons.prems x Inr wh r i obtain acc' where
      "MakeBids_loop l a req requests (Suc i) rest acc' = Return (None, [AdsizeParseError e])"
      by (auto simp: Let_def split: if_splits)
    from Cons.IH [OF this] obtain pre b post where
      p: "rest = pre @ Some b # post" "pre = [] \<or> Suc i + length pre \<le> length (Imps req)"
         "list_all (\<lambda>e. \<exists>x w h r. e = Some x \<and> splitSize (Adsize x) = Inr (w, h)
                     \<and> findBidReq (bidResponse_ID x) requests = Some r) pre"
         "splitSize (Adsize b) = Inl (AdsizeParseError e)"
      by blast
    have "entry # rest = (entry # pre) @ Some b # post
      \<and> (entry # pre = [] \<or> i + length (entry # pre) \<le> length (Imps req))
      \<and> list_all (\<lambda>e. \<exists>x w h r. e = Some x \<and> splitSize (Adsize x) = Inr (w, h)
                     \<and> findBidReq (bidResponse_ID x) requests = Some r) (entry # pre)
      \<and> splitSize (Adsize b) = Inl (AdsizeParseError e)"
      using p x Inr wh r i by auto
    then show ?thesis by blast
  qed
qed

lemma parseRequest_loop_error:
  "parseRequest_loop l imps ps = Inl x \<Longrightarrow> \<exists>m. x = BadInput m"
  by (induction imps arbitrary: ps) (auto split: sum.splits)

lemma MakeBids_loop_all_in_order:
  "list_all (\<lambda>e. \<exists>x w h r. e = Some x \<and> splitSize (Adsize x) = Inr (w, h)
                     \<and> findBidReq (bidResponse_ID x) requests = Some r) bids \<Longrightarrow>
   i + length bids \<le> length (Imps req) \<Longrightarrow>
   \<exists>r. MakeBids_loop l a req requests i bids acc = Return (Some r, [])"
  using MakeBids_loop_processed_prefix [of requests bids i req l a "[]" acc] by auto

text \<open>
  A response of two entries for two line-items, the first with the size \<open>728\<close>: both
  yield a bid, the first of width 0 and height 0.
\<close>

lemma MakeBids_example_mixed:
  "MakeBids exampleLib exampleAdapter exampleRequest2 exampleExternal
       \<lparr>StatusCode = 200, Body = ''[123:728,123:300x250]''\<rparr>
     = Return
         (Some \<lparr>Currency = ''EUR'',
                Bids =
                  [\<lparr>TypedBid_Bid =
                      \<lparr>Bid_ID = ''123'', Bid_Price = 3 / 2, ImpID = ''imp-1'',
                       CrID = ''123733'', DealID = ''7'', Bid_W = 0, Bid_H = 0, NURL = [],
                       AdM = ''<script src=https://ad.yieldlab.net/d/123/456/728?id=ext&pvid=abc&ts=testing&></script>''\<rparr>,
                    TypedBid_BidType = BidTypeBanner\<rparr>,
                   \<lparr>TypedBid_Bid =
                      \<lparr>Bid_ID = ''123'', Bid_Price = 3 / 2, ImpID = ''imp-2'',
                       CrID = ''123733'', DealID = ''7'', Bid_W = 300, Bid_H = 250,
                       NURL = ''https://ad.yieldlab.net/d/123/456/300x250?id=ext&pvid=abc&ts=testing&'',
                       AdM = []\<rparr>,
                    TypedBid_BidType = BidTypeVideo\<rparr>]\<rparr>,
          [])"
  by (simp add: eval_defs ex_defs)




section \<open>The length of the cache client's result\<close>

lemma PutJson_forEach_length:
  "PutJson_forEach rs i us = Return r \<Longrightarrow> length r = length us"
  by (induction rs i us rule: PutJson_forEach.induct)
     (auto split: option.splits json.splits if_splits)

lemma PutJson_length:
  "PutJson l c vs = Return r \<Longrightarrow> length r = length vs"
  by (auto simp: PutJson_def Let_def dest: PutJson_forEach_length
           split: if_splits sum.splits option.splits json.splits)

lemma PutJson_forEach_returns:
  "i + length rs \<le> length us \<Longrightarrow> \<exists>r. PutJson_forEach rs i us = Return r"
  by (induction rs i us rule: PutJson_forEach.induct)
     (auto split: option.splits json.splits)

text \<open>
  C3. \<open>PutJson\<close> should return as many IDs as it was given values and never panic, also
  when the service answers with a different number of entries. Whenever it returns, the
  lengths agree (\<open>PutJson_length\<close>), and it returns whenever the answer has no more entries
  than there were values (\<open>PutJson_forEach_returns\<close>). With one value and an answer of two
  entries with string IDs, the second assignment is out of range and \<open>PutJson\<close> panics.
\<close>

theorem PutJson_longer_responses_panics:
  "PutJson exampleCacheLib \<lparr>putUrl = ''http://cache.local/cache''\<rparr> [Some ''1'']
     = Panic (IndexOutOfRange 1 1)"
  by (simp add: PutJson_def exampleCacheLib_def encodeValues_def encodeValueToBuffer_def
        gjson_Get_def)

section \<open>The regulatory parameters of the endpoint URL\<close>

lemma makeEndpointURL_q_gdpr:
  assumes "getGDPR l req = Inr (gdpr, consent)"
  shows "\<exists>q. makeEndpointURL_q l a req params uri = Inr q
     \<and> (if gdpr \<noteq> [] \<and> consent \<noteq> []
        then q ''gdpr'' = Some [gdpr] \<and> q ''consent'' = Some [consent]
        else q ''gdpr'' = url_ParseQuery l (RawQuery uri) ''gdpr''
           \<and> q ''consent'' = url_ParseQuery l (RawQuery uri) ''consent'')"
  using assms
  by (simp add: makeEndpointURL_q_def Let_def split: option.splits)

text \<open>
  C4, as amended. When the endpoint parses and \<open>getGDPR\<close> yields a flag and a consent, the
  endpoint URL is built from a query in which both \<open>gdpr\<close> and \<open>consent\<close> are set to them if
  both are non-empty, and in which both keys are otherwise left as the configured
  endpoint's own query had them; so with an endpoint that carries neither key, the query
  has both keys exactly when flag and consent are both non-empty, and has neither
  otherwise.
\<close>

theorem makeEndpointURL_gdpr_both_or_neither:
  assumes "url_Parse l (endpoint a) = Inr parsed"
    and "getGDPR l req = Inr (gdpr, consent)"
  shows "\<exists>q. makeEndpointURL_q l a req params
              (parsed\<lparr>URL_Path := path_Join l (URL_Path parsed) (AdslotID params)\<rparr>) = Inr q
     \<and> makeEndpointURL l a req params
         = Inr (URL_String l
                 (parsed\<lparr>URL_Path := path_Join l (URL_Path parsed) (AdslotID params),
                         RawQuery := Values_Encode l q\<rparr>))
     \<and> (if gdpr \<noteq> [] \<and> consent \<noteq> []
        then q ''gdpr'' = Some [gdpr] \<and> q ''consent'' = Some [consent]
        else q ''gdpr'' = url_ParseQuery l (RawQuery parsed) ''gdpr''
           \<and> q ''consent'' = url_ParseQuery l (RawQuery parsed) ''consent'')
     \<and> (url_ParseQuery l (RawQuery parsed) ''gdpr'' = None
          \<and> url_ParseQuery l (RawQuery parsed) ''consent'' = None
        \<longrightarrow> ((q ''gdpr'' \<noteq> None \<and> q ''consent'' \<noteq> None) \<longleftrightarrow> (gdpr \<noteq> [] \<and> consent \<noteq> []))
          \<and> ((q ''gdpr'' = None \<and> q ''consent'' = None) \<longleftrightarrow> \<not> (gdpr \<noteq> [] \<and> consent \<noteq> [])))"
proof -
  let ?uri = "parsed\<lparr>URL_Path := path_Join l (URL_Path parsed) (AdslotID params)\<rparr>"
  from makeEndpointURL_q_gdpr [OF assms(2), of a params ?uri] obtain q where
    q: "makeEndpointURL_q l a req params ?uri = Inr q"
    and g: "if gdpr \<noteq> [] \<and> consent \<noteq> []
        then q ''gdpr'' = Some [gdpr] \<and> q ''consent'' = Some [consent]
        else q ''gdpr'' = url_ParseQuery l (RawQuery parsed) ''gdpr''
           \<and> q ''consent'' = url_ParseQuery l (RawQuery parsed) ''consent''"
    by auto
  have u: "makeEndpointURL l a req params
         = Inr (URL_String l (?uri\<lparr>RawQuery := Values_Encode l q\<rparr>))"
    using assms(1) q by (simp add: makeEndpointURL_def Let_def)
  show ?thesis
  proof (intro exI conjI)
    show "makeEndpointURL_q l a req params ?uri = Inr q" by (rule q)
    show "makeEndpointURL l a req params
         = Inr (URL_String l
                 (parsed\<lparr>URL_Path := path_Join l (URL_Path parsed) (AdslotID params),
                         RawQuery := Values_Encode l q\<rparr>))"
      using u by simp
    show "if gdpr \<noteq> [] \<and> consent \<noteq> []
        then q ''gdpr'' = Some [gdpr] \<and> q ''consent'' = Some [consent]
        else q ''gdpr'' = url_ParseQuery l (RawQuery parsed) ''gdpr''
           \<and> q ''consent'' = url_ParseQuery l (RawQuery parsed) ''consent''"
      by (rule g)
    show "url_ParseQuery l (RawQuery parsed) ''gdpr'' = None
          \<and> url_ParseQuery l (RawQuery parsed) ''consent'' = None
        \<longrightarrow> ((q ''gdpr'' \<noteq> None \<and> q ''consent'' \<noteq> None) \<longleftrightarrow> (gdpr \<noteq> [] \<and> consent \<noteq> []))
          \<and> ((q ''gdpr'' = None \<and> q ''consent'' = None) \<longleftrightarrow> \<not> (gdpr \<noteq> [] \<and> consent \<noteq> []))"
      using g by (auto split: if_splits)
  qed
qed

theorem makeEndpointURL_gdpr_both_or_neither_witness:
  "makeEndpointURL exampleLib exampleAdapter exampleRequestConsent exampleMerged
     = Inr ''https://ad.yieldlab.net/yp/123?consent=abc&content=json&gdpr=1&ids=ylid:buyer&pvid=true&t=&ts=testing&''
   \<and> makeEndpointURL exampleLib exampleAdapter exampleRequestNoConsent exampleMerged
     = Inr ''https://ad.yieldlab.net/yp/123?content=json&ids=ylid:buyer&pvid=true&t=&ts=testing&''
   \<and> (\<exists>q. makeEndpointURL_q exampleLib exampleAdapter exampleRequestConsent exampleMerged
             \<lparr>Scheme = ''https'', Host = ''ad.yieldlab.net'', URL_Path = ''/yp/123'',
              RawQuery = []\<rparr> = Inr q
          \<and> q ''gdpr'' = Some [''1''] \<and> q ''consent'' = Some [''abc''])
   \<and> (\<exists>q. makeEndpointURL_q exampleLib exampleAdapter exampleRequestNoConsent exampleMerged
             \<lparr>Scheme = ''https'', Host = ''ad.yieldlab.net'', URL_Path = ''/yp/123'',
              RawQuery = []\<rparr> = Inr q
          \<and> q ''gdpr'' = None \<and> q ''consent'' = None)"
proof -
  let ?parsed = "\<lparr>Scheme = ''https'', Host = ''ad.yieldlab.net'', URL_Path = ''/yp/'',
                  RawQuery = []\<rparr>"
  have p: "url_Parse exampleLib (endpoint exampleAdapter) = Inr ?parsed"
    by (simp add: ex_defs)
  have g1: "getGDPR exampleLib exampleRequestConsent = Inr (''1'', ''abc'')"
    by (simp add: url_defs ex_defs)
  have g2: "getGDPR exampleLib exampleRequestNoConsent = Inr (''1'', [])"
    by (simp add: url_defs ex_defs)
  have e: "url_ParseQuery exampleLib (RawQuery ?parsed) = Map.empty"
      "path_Join exampleLib (URL_Path ?parsed) (AdslotID exampleMerged) = ''/yp/123''"
    by (simp_all add: ex_defs exampleMerged_def)
  have u1: "makeEndpointURL exampleLib exampleAdapter exampleRequestConsent exampleMerged
     = Inr ''https://ad.yieldlab.net/yp/123?consent=abc&content=json&gdpr=1&ids=ylid:buyer&pvid=true&t=&ts=testing&''"
    by (simp add: url_defs ex_defs)
  have u2: "makeEndpointURL exampleLib exampleAdapter exampleRequestNoConsent exampleMerged
     = Inr ''https://ad.yieldlab.net/yp/123?content=json&ids=ylid:buyer&pvid=true&t=&ts=testing&''"
    by (simp add: url_defs ex_defs)
  from makeEndpointURL_gdpr_both_or_neither [OF p g1, of exampleMerged]
  have w1: "\<exists>q. makeEndpointURL_q exampleLib exampleAdapter exampleRequestConsent exampleMerged
             \<lparr>Scheme = ''https'', Host = ''ad.yieldlab.net'', URL_Path = ''/yp/123'',
              RawQuery = []\<rparr> = Inr q
          \<and> q ''gdpr'' = Some [''1''] \<and> q ''consent'' = Some [''abc'']"
    unfolding e by auto
  from makeEndpointURL_gdpr_both_or_neither [OF p g2, of exampleMerged]
  have w2: "\<exists>q. makeEndpointURL_q exampleLib exampleAdapter exampleRequestNoConsent exampleMerged
             \<lparr>Scheme = ''https'', Host = ''ad.yieldlab.net'', URL_Path = ''/yp/123'',
              RawQuery = []\<rparr> = Inr q
          \<and> q ''gdpr'' = None \<and> q ''consent'' = None"
    unfolding e by auto
  show ?thesis using u1 u2 w1 w2 by blast
qed

text \<open>
  C4, as stated, fails when the configured endpoint has \<open>gdpr\<close> and \<open>consent\<close> in its own
  query: the request has the flag 1 and no consent, yet the URL carries both parameters,
  with the values of the endpoint.
\<close>

theorem makeEndpointURL_endpoint_query_counterexample:
  "getGDPR exampleLib exampleRequestNoConsent = Inr (''1'', [])
   \<and> makeEndpointURL exampleLib exampleAdapterQuery exampleRequestNoConsent exampleMerged
       = Inr ''https://ad.yieldlab.net/yp/123?consent=zzz&content=json&gdpr=9&ids=ylid:buyer&pvid=true&t=&ts=testing&''
   \<and> (case makeEndpointURL_q exampleLib exampleAdapterQuery exampleRequestNoConsent exampleMerged
              \<lparr>Scheme = ''https'', Host = ''ad.yieldlab.net'', URL_Path = ''/yp/123'',
               RawQuery = ''gdpr=9&consent=zzz''\<rparr> of
         Inl e \<Rightarrow> False
       | Inr q \<Rightarrow> q ''gdpr'' = Some [''9''] \<and> q ''consent'' = Some [''zzz''])"
  by (simp add: url_defs ex_defs)

section \<open>Merging the parameters of the line-items\<close>

lemma mergeParams_loop_ids:
  "fst (mergeParams_loop ps ids t) = ids @ map AdslotID ps"
  by (induction ps arbitrary: ids t) auto

lemma mergeParams_loop_dom:
  "dom (snd (mergeParams_loop ps ids t)) = dom t \<union> (\<Union>p \<in> set ps. dom (Targeting p))"
  by (induction ps arbitrary: ids t) auto

lemma mergeParams_loop_absent:
  "(\<And>p. p \<in> set ps \<Longrightarrow> Targeting p k = None) \<Longrightarrow> snd (mergeParams_loop ps ids t) k = t k"
  by (induction ps arbitrary: ids t) (auto simp: map_add_def)

lemma mergeParams_loop_last:
  "j < length ps \<Longrightarrow> Targeting (ps ! j) k = Some v \<Longrightarrow>
   (\<And>j'. j < j' \<Longrightarrow> j' < length ps \<Longrightarrow> Targeting (ps ! j') k = None) \<Longrightarrow>
   snd (mergeParams_loop ps ids t) k = Some v"
proof (induction ps arbitrary: j ids t)
  case Nil
  then show ?case by simp
next
  case (Cons p ps)
  show ?case
  proof (cases j)
    case 0
    have later: "\<And>q. q \<in> set ps \<Longrightarrow> Targeting q k = None"
    proof -
      fix q assume "q \<in> set ps"
      then obtain n where n: "n < length ps" "ps ! n = q"
        by (auto simp: in_set_conv_nth)
      from Cons.prems(3) [of "Suc n"] 0 n show "Targeting q k = None" by simp
    qed
    have "snd (mergeParams_loop ps (ids @ [AdslotID p]) (t ++ Targeting p)) k
            = (t ++ Targeting p) k"
      by (rule mergeParams_loop_absent) (rule later)
    with Cons.prems(2) 0 show ?thesis by (simp add: map_add_def)
  next
    case (Suc n)
    have "snd (mergeParams_loop ps (ids @ [AdslotID p]) (t ++ Targeting p)) k = Some v"
    proof (rule Cons.IH [of n])
      show "n < length ps" using Cons.prems(1) Suc by simp
      show "Targeting (ps ! n) k = Some v" using Cons.prems(2) Suc by simp
      fix j' assume "n < j'" "j' < length ps"
      then show "Targeting (ps ! j') k = None"
        using Cons.prems(3) [of "Suc j'"] Suc by simp
    qed
    then show ?thesis by simp
  qed
qed

text \<open>
  C5. \<open>mergeParams\<close> always succeeds. The keys of the merged targeting map are exactly the
  union of the keys of the line-items' targeting maps; a key takes the value of the last
  line-item that has it; the merged slot ID is the join of the slot IDs in input order
  with the separator, so that \<open>["123","456"]\<close> gives \<open>"123,456"\<close>.
\<close>

theorem mergeParams_union_last_wins:
  "\<exists>m. mergeParams ps = Inr m
     \<and> dom (Targeting m) = (\<Union>p \<in> set ps. dom (Targeting p))
     \<and> (\<forall>j k v. j < length ps \<and> Targeting (ps ! j) k = Some v
            \<and> (\<forall>j'. j < j' \<and> j' < length ps \<longrightarrow> Targeting (ps ! j') k = None)
          \<longrightarrow> Targeting m k = Some v)
     \<and> AdslotID m = strings_Join (map AdslotID ps) adSlotIdSeparator
     \<and> strings_Join [''123'', ''456''] adSlotIdSeparator = ''123,456''"
proof -
  obtain ids t where lp: "mergeParams_loop ps [] Map.empty = (ids, t)"
    by (cases "mergeParams_loop ps [] Map.empty")
  have ids: "ids = map AdslotID ps"
    using mergeParams_loop_ids [of ps "[]" Map.empty] lp by simp
  have d: "dom t = (\<Union>p \<in> set ps. dom (Targeting p))"
    using mergeParams_loop_dom [of ps "[]" Map.empty] lp by simp
  have w: "t k = Some v"
    if "j < length ps" "Targeting (ps ! j) k = Some v"
       "\<forall>j'. j < j' \<and> j' < length ps \<longrightarrow> Targeting (ps ! j') k = None" for j k v
    using mergeParams_loop_last [of j ps k v "[]" Map.empty] that lp by simp
  show ?thesis
    using lp ids d w by (simp add: mergeParams_def adSlotIdSeparator_def) blast
qed

theorem mergeParams_union_last_wins_witness:
  "\<exists>m. mergeParams [exampleParams1, exampleParams2] = Inr m
     \<and> Targeting m ''key'' = Some ''second''
     \<and> Targeting m ''only'' = Some ''kept''
     \<and> AdslotID m = ''123,456''"
proof -
  let ?ps = "[exampleParams1, exampleParams2]"
  from mergeParams_union_last_wins [of ?ps] obtain m where
    m: "mergeParams ?ps = Inr m"
    and w: "\<forall>j k v. j < length ?ps \<and> Targeting (?ps ! j) k = Some v
            \<and> (\<forall>j'. j < j' \<and> j' < length ?ps \<longrightarrow> Targeting (?ps ! j') k = None)
          \<longrightarrow> Targeting m k = Some v"
    and s: "AdslotID m = strings_Join (map AdslotID ?ps) adSlotIdSeparator"
    by blast
  have "Targeting m ''key'' = Some ''second''"
    using w [rule_format, of 1 "''key''" "''second''"] by (simp add: exampleParams2_def)
  moreover have "Targeting m ''only'' = Some ''kept''"
  proof -
    have later: "\<forall>j'. 0 < j' \<and> j' < length ?ps \<longrightarrow> Targeting (?ps ! j') ''only'' = None"
    proof (intro allI impI)
      fix j' assume "0 < j' \<and> j' < length ?ps"
      then have "j' = 1" by simp
      then show "Targeting (?ps ! j') ''only'' = None"
        by (simp add: exampleParams2_def)
    qed
    have "0 < length ?ps \<and> Targeting (?ps ! 0) ''only'' = Some ''kept''"
      by (simp add: exampleParams1_def)
    with later show ?thesis
      using w [rule_format, of 0 "''only''" "''kept''"] by blast
  qed
  moreover have "AdslotID m = ''123,456''"
    using s by (simp add: exampleParams1_def exampleParams2_def adSlotIdSeparator_def)
  ultimately show ?thesis using m by blast
qed

section \<open>Responses that are not mapped at all\<close>

text \<open>
  C6. A response whose status code is not 200 gives no bids and the one error that
  carries the status code; a body that does not decode gives no bids and the one error
  that carries the decoder's message.
\<close>

theorem MakeBids_not_200_or_undecodable:
  "(StatusCode response \<noteq> 200 \<longrightarrow>
      MakeBids l a req ext response
        = Return (None, [UnexpectedResponseCode (StatusCode response)]))
   \<and> (StatusCode response = 200
      \<and> json_Unmarshal (json_bidResponses l) (Body response) = Inl err \<longrightarrow>
      MakeBids l a req ext response = Return (None, [BidsParseError err]))"
  by (simp add: MakeBids_def)

theorem MakeBids_not_200_or_undecodable_witness:
  "MakeBids exampleLib exampleAdapter exampleRequest exampleExternal
       \<lparr>StatusCode = 500, Body = ''[123]''\<rparr>
     = Return (None, [UnexpectedResponseCode 500])
   \<and> MakeBids exampleLib exampleAdapter exampleRequest exampleExternal
       \<lparr>StatusCode = 200, Body = ''<html>''\<rparr>
     = Return (None, [BidsParseError ''invalid character''])"
proof -
  have u: "json_Unmarshal (json_bidResponses exampleLib) ''<html>'' = Inl ''invalid character''"
    by (simp add: json_Unmarshal_def exampleLib_def)
  show ?thesis
    using MakeBids_not_200_or_undecodable
            [of "\<lparr>StatusCode = 500, Body = ''[123]''\<rparr>" exampleLib exampleAdapter
                exampleRequest exampleExternal "''invalid character''"]
          MakeBids_not_200_or_undecodable
            [of "\<lparr>StatusCode = 200, Body = ''<html>''\<rparr>" exampleLib exampleAdapter
                exampleRequest exampleExternal "''invalid character''"] u
    by simp
qed

section \<open>The currency of the response\<close>

text \<open>
  Every response that \<open>MakeBids\<close> returns is in EUR, whatever the request says.
\<close>

lemma MakeBids_loop_currency:
  "MakeBids_loop l a req requests i bids acc = Return (Some r, errs) \<Longrightarrow> Currency r = ''EUR''"
  by (induction bids arbitrary: i acc)
     (auto simp: Let_def split: option.splits sum.splits if_splits)

lemma MakeBids_currency:
  "MakeBids l a req ext response = Return (Some r, errs) \<Longrightarrow> Currency r = ''EUR''"
  by (auto simp: MakeBids_def split: if_splits sum.splits dest: MakeBids_loop_currency)

section \<open>The price of a bid\<close>

lemma MakeBids_loop_prices:
  "set bids \<subseteq> B \<Longrightarrow>
   \<forall>tb \<in> set acc. \<exists>b. Some b \<in> B
      \<and> Bid_Price (TypedBid_Bid tb) = float64_div (float64_of_uint (bidResponse_Price b)) 100 \<Longrightarrow>
   MakeBids_loop l a req rs i bids acc = Return (Some resp, errs) \<Longrightarrow>
   \<forall>tb \<in> set (Bids resp). \<exists>b. Some b \<in> B
      \<and> Bid_Price (TypedBid_Bid tb) = float64_div (float64_of_uint (bidResponse_Price b)) 100"
proof (induction bids arbitrary: i acc)
  case Nil
  then show ?case by auto
next
  case (Cons entry rest)
  from Cons.prems(3) obtain x w h r where
    e: "entry = Some x" "splitSize (Adsize x) = Inr (w, h)"
       "findBidReq (bidResponse_ID x) rs = Some r" "i < length (Imps req)"
    by (auto split: option.splits sum.splits if_splits)
  from Cons.prems(1) e(1) have x: "Some x \<in> B" and rest: "set rest \<subseteq> B"
    by simp_all
  from Cons.prems(3) e obtain acc' where
    step: "MakeBids_loop l a req rs (Suc i) rest acc' = Return (Some resp, errs)"
    and acc': "\<forall>tb \<in> set acc'. tb \<in> set acc
        \<or> Bid_Price (TypedBid_Bid tb) = float64_div (float64_of_uint (bidResponse_Price x)) 100"
    by (auto simp: Let_def split: if_splits)
  have "\<forall>tb \<in> set acc'. \<exists>b. Some b \<in> B
      \<and> Bid_Price (TypedBid_Bid tb) = float64_div (float64_of_uint (bidResponse_Price b)) 100"
    using acc' Cons.prems(2) x by blast
  from Cons.IH [OF rest this step] show ?case .
qed

lemma float64_price_exact:
  assumes "is_binary64 (of_nat (unat p))" and "is_binary64 (of_nat (unat p) / 100)"
  shows "float64_div (float64_of_uint p) 100 = of_nat (unat p) / 100"
proof -
  have nn: "(0 :: rat) \<le> of_nat (unat p)"
    by (simp only: of_nat_0_le_iff)
  then have nd: "(0 :: rat) \<le> of_nat (unat p) / 100"
    by (rule divide_nonneg_nonneg) simp
  have "float64_of_uint p = of_nat (unat p)"
    unfolding float64_of_uint_def using assms(1) nn by (rule binary64_round_exact)
  moreover have "binary64_round (of_nat (unat p) / 100) = of_nat (unat p) / 100"
    using assms(2) nd by (rule binary64_round_exact)
  ultimately show ?thesis by (simp only: float64_div_def)
qed

lemma float64_of_uint_84442493013197175:
  "float64_of_uint 84442493013197175 = 84442493013197168"
proof -
  have "binary64_round 84442493013197175
          = of_int (round_half_even (84442493013197175 / 2 powi (56 - 52))) * 2 powi (56 - 52)"
    by (rule binary64_round_eval) simp_all
  also have "round_half_even (84442493013197175 / 2 powi (56 - 52)) = 5277655813324823"
    by (rule round_half_even_down) simp_all
  finally show ?thesis by (simp add: float64_of_uint_def)
qed

lemma float64_price_84442493013197175:
  "float64_div (float64_of_uint 84442493013197175) 100 = 6755399441055773 / 8"
proof -
  have "binary64_round (84442493013197168 / 100)
          = of_int (round_half_even ((84442493013197168 / 100) / 2 powi (49 - 52)))
              * 2 powi (49 - 52)"
    by (rule binary64_round_eval) simp_all
  also have "round_half_even ((84442493013197168 / 100) / 2 powi (49 - 52)) = 6755399441055773"
    by (rule round_half_even_down) simp_all
  finally show ?thesis
    by (simp add: float64_div_def float64_of_uint_84442493013197175)
qed




section \<open>Errors of the regulatory signal\<close>

lemma getGDPR_error_iff:
  "(\<exists>e. getGDPR l req = Inl e) \<longleftrightarrow>
     (\<exists>regs e. Req_Regs req = Some regs
         \<and> json_Unmarshal (json_ExtRegs l) (RawMessage_bytes (Regs_Ext regs)) = Inl e)
     \<or> (\<exists>u ext e. Req_User req = Some u \<and> User_Ext u = Some ext
         \<and> json_Unmarshal (json_ExtUser l) ext = Inl e)"
  by (auto simp: getGDPR_def split: option.splits sum.splits)

lemma getGDPR_user_without_ext:
  "Req_Regs req = None \<Longrightarrow> Req_User req = Some u \<Longrightarrow> User_Ext u = None \<Longrightarrow>
   getGDPR l req = Inr ([], [])"
  by (simp add: getGDPR_def)

lemma getGDPR_flag_out_of_range:
  "Req_Regs req = Some regs \<Longrightarrow>
   json_Unmarshal (json_ExtRegs l) (RawMessage_bytes (Regs_Ext regs)) = Inr x \<Longrightarrow>
   GDPR x = Some g \<Longrightarrow> g \<noteq> 0 \<Longrightarrow> g \<noteq> 1 \<Longrightarrow> getGDPR l req = Inr (gd, c) \<Longrightarrow> gd = []"
  by (auto simp: getGDPR_def split: option.splits sum.splits)

text \<open>
  C8. \<open>getGDPR\<close> should fail only when a payload that is present cannot be parsed, and an
  absent payload should give an empty signal. For the user it does
  (\<open>getGDPR_user_without_ext\<close>). For a request whose \<open>Regs\<close> object has no \<open>Ext\<close> it
  fails all the same: the nil payload is handed to \<open>json.Unmarshal\<close>, which rejects it.
\<close>

theorem getGDPR_regs_without_ext:
  "getGDPR l (req\<lparr>Req_Regs := Some \<lparr>Regs_Ext = None\<rparr>\<rparr>)
     = Inl (ExtRegsParseError ''unexpected end of JSON input'')"
  by (simp add: getGDPR_def json_Unmarshal_def RawMessage_bytes_def)

section \<open>The ad-source URL\<close>

text \<open>
  C9. \<open>makeAdSourceURL\<close> and \<open>makeBannerAdSource\<close> have a string as their result for every
  input. When \<open>getGDPR\<close> fails, the ad-source URL is built without \<open>gdpr\<close> and \<open>consent\<close>,
  whereas \<open>makeEndpointURL\<close> fails, with that very error once the endpoint has parsed.
  When \<open>getGDPR\<close> succeeds, both parameters are set if both are non-empty and neither
  otherwise.
\<close>

theorem makeAdSourceURL_swallows_gdpr_error:
  "makeAdSourceURL l a req ext res
     = fmt_adSourceURL l (AdslotID ext) (SupplyID ext) (Adsize res)
         (Values_Encode l (makeAdSourceURL_val l a req ext res))
   \<and> makeBannerAdSource l a req ext res = fmt_adSourceBanner l (makeAdSourceURL l a req ext res)
   \<and> (getGDPR l req = Inl e \<longrightarrow>
        makeAdSourceURL_val l a req ext res ''gdpr'' = None
        \<and> makeAdSourceURL_val l a req ext res ''consent'' = None
        \<and> (\<exists>e'. makeEndpointURL l a req params = Inl e')
        \<and> (\<forall>parsed. url_Parse l (endpoint a) = Inr parsed \<longrightarrow>
              makeEndpointURL l a req params = Inl e))
   \<and> (getGDPR l req = Inr (gdpr, consent) \<longrightarrow>
        (if gdpr \<noteq> [] \<and> consent \<noteq> []
         then makeAdSourceURL_val l a req ext res ''gdpr'' = Some [gdpr]
            \<and> makeAdSourceURL_val l a req ext res ''consent'' = Some [consent]
         else makeAdSourceURL_val l a req ext res ''gdpr'' = None
            \<and> makeAdSourceURL_val l a req ext res ''consent'' = None))"
proof -
  have v: "makeAdSourceURL_val l a req ext res ''gdpr'' = None
        \<and> makeAdSourceURL_val l a req ext res ''consent'' = None"
    if "getGDPR l req = Inl e"
    using that by (simp add: makeAdSourceURL_val_def Let_def split: option.splits)
  have q: "makeEndpointURL_q l a req params uri = Inl e" if "getGDPR l req = Inl e" for uri
    using that by (simp add: makeEndpointURL_q_def Let_def)
  have u: "\<exists>e'. makeEndpointURL l a req params = Inl e'" if "getGDPR l req = Inl e"
    using q [OF that] by (simp add: makeEndpointURL_def Let_def split: sum.splits)
  have p: "makeEndpointURL l a req params = Inl e"
    if "getGDPR l req = Inl e" "url_Parse l (endpoint a) = Inr parsed" for parsed
    using q [OF that(1)] that(2) by (simp add: makeEndpointURL_def Let_def)
  have w: "if gdpr \<noteq> [] \<and> consent \<noteq> []
         then makeAdSourceURL_val l a req ext res ''gdpr'' = Some [gdpr]
            \<and> makeAdSourceURL_val l a req ext res ''consent'' = Some [consent]
         else makeAdSourceURL_val l a req ext res ''gdpr'' = None
            \<and> makeAdSourceURL_val l a req ext res ''consent'' = None"
    if "getGDPR l req = Inr (gdpr, consent)"
    using that by (simp add: makeAdSourceURL_val_def Let_def split: option.splits)
  show ?thesis
    using v u p w by (simp add: makeAdSourceURL_def makeBannerAdSource_def)
qed

theorem makeAdSourceURL_swallows_gdpr_error_witness:
  "getGDPR exampleLib exampleRequestBadRegs = Inl (ExtRegsParseError ''invalid character'')
   \<and> makeAdSourceURL exampleLib exampleAdapter exampleRequestBadRegs exampleSlot
        (exampleEntry 123 ''300x250'')
       = ''https://ad.yieldlab.net/d/123/456/300x250?id=ext&ids=ylid:buyer&pvid=abc&ts=testing&''
   \<and> makeEndpointURL exampleLib exampleAdapter exampleRequestBadRegs exampleMerged
       = Inl (ExtRegsParseError ''invalid character'')
   \<and> makeAdSourceURL exampleLib exampleAdapter exampleRequestConsent exampleSlot
        (exampleEntry 123 ''300x250'')
       = ''https://ad.yieldlab.net/d/123/456/300x250?consent=abc&gdpr=1&id=ext&ids=ylid:buyer&pvid=abc&ts=testing&''"
proof -
  let ?res = "exampleEntry 123 ''300x250''"
  let ?parsed = "\<lparr>Scheme = ''https'', Host = ''ad.yieldlab.net'', URL_Path = ''/yp/'',
                  RawQuery = []\<rparr>"
  have g: "getGDPR exampleLib exampleRequestBadRegs = Inl (ExtRegsParseError ''invalid character'')"
    by (simp add: url_defs ex_defs)
  have p: "url_Parse exampleLib (endpoint exampleAdapter) = Inr ?parsed"
    by (simp add: ex_defs)
  have g1: "getGDPR exampleLib exampleRequestConsent = Inr (''1'', ''abc'')"
    by (simp add: url_defs ex_defs)
  note bad = makeAdSourceURL_swallows_gdpr_error
    [where l = exampleLib and a = exampleAdapter and req = exampleRequestBadRegs
       and ext = exampleSlot and res = ?res and params = exampleMerged
       and e = "ExtRegsParseError ''invalid character''" and gdpr = "[]" and consent = "[]"]
  have e: "makeEndpointURL exampleLib exampleAdapter exampleRequestBadRegs exampleMerged
       = Inl (ExtRegsParseError ''invalid character'')"
    using bad g p by blast
  have s1: "makeAdSourceURL exampleLib exampleAdapter exampleRequestBadRegs exampleSlot ?res
       = ''https://ad.yieldlab.net/d/123/456/300x250?id=ext&ids=ylid:buyer&pvid=abc&ts=testing&''"
    by (simp add: eval_defs ex_defs exampleSlot_def)
  have s2: "makeAdSourceURL exampleLib exampleAdapter exampleRequestConsent exampleSlot ?res
       = ''https://ad.yieldlab.net/d/123/456/300x250?consent=abc&gdpr=1&id=ext&ids=ylid:buyer&pvid=abc&ts=testing&''"
    by (simp add: eval_defs ex_defs exampleSlot_def Itoa_def)
  show ?thesis using g e s1 s2 by blast
qed

section \<open>Entries past the last line-item\<close>

lemma MakeBids_loop_past_last:
  "list_all (\<lambda>e. \<exists>x w h r. e = Some x \<and> splitSize (Adsize x) = Inr (w, h)
                     \<and> findBidReq (bidResponse_ID x) requests = Some r) pre \<Longrightarrow>
   i + length pre = length (Imps req) \<Longrightarrow>
   splitSize (Adsize b) = Inr (w, h) \<Longrightarrow>
   findBidReq (bidResponse_ID b) requests = Some r \<Longrightarrow>
   MakeBids_loop l a req requests i (pre @ Some b # post) acc
     = Panic (IndexOutOfRange (length (Imps req)) (length (Imps req)))"
proof (induction pre arbitrary: i acc)
  case Nil
  then show ?case by simp
next
  case (Cons e pre)
  from Cons.prems(1) obtain x w' h' r' where
    e: "e = Some x" "splitSize (Adsize x) = Inr (w', h')"
       "findBidReq (bidResponse_ID x) requests = Some r'"
    and rest: "list_all (\<lambda>e. \<exists>x w h r. e = Some x \<and> splitSize (Adsize x) = Inr (w, h)
                     \<and> findBidReq (bidResponse_ID x) requests = Some r) pre"
    by auto
  from Cons.prems(2) have i: "i < length (Imps req)" "Suc i + length pre = length (Imps req)"
    by simp_all
  note IH = Cons.IH [OF rest i(2) Cons.prems(3) Cons.prems(4)]
  show ?case
    using e i(1) by (simp add: Let_def IH)
qed

text \<open>
  C10. The response array is longer than the list of line-items, and the entries before
  the index of the first entry past the last line-item are all processed (none is nil,
  every size parses, every id matches a slot). If the entry at that index has a size that
  parses and an id that matches a slot, \<open>MakeBids\<close> panics with an index out of range
  instead of returning an error.
\<close>

theorem MakeBids_entry_past_last_imp_panics:
  assumes "StatusCode response = 200"
    and "json_Unmarshal (json_bidResponses l) (Body response) = Inr (pre @ Some b # post)"
    and "parseRequest l req = Inr requests"
    and "length pre = length (Imps req)"
    and "\<forall>e \<in> set pre. \<exists>x w h r. e = Some x \<and> splitSize (Adsize x) = Inr (w, h)
                     \<and> findBidReq (bidResponse_ID x) requests = Some r"
    and "splitSize (Adsize b) = Inr (w, h)"
    and "findBidReq (bidResponse_ID b) requests = Some r"
  shows "MakeBids l a req ext response
           = Panic (IndexOutOfRange (length (Imps req)) (length (Imps req)))"
proof -
  have "list_all (\<lambda>e. \<exists>x w h r. e = Some x \<and> splitSize (Adsize x) = Inr (w, h)
                     \<and> findBidReq (bidResponse_ID x) requests = Some r) pre"
    using assms(5) by (simp add: list_all_iff)
  then have "MakeBids_loop l a req requests 0 (pre @ Some b # post) []
               = Panic (IndexOutOfRange (length (Imps req)) (length (Imps req)))"
    using assms(4,6,7) by (intro MakeBids_loop_past_last) simp_all
  then show ?thesis
    using assms(1,2,3) by (simp add: MakeBids_def)
qed

theorem MakeBids_entry_past_last_imp_panics_witness:
  "MakeBids exampleLib exampleAdapter exampleRequest exampleExternal
       \<lparr>StatusCode = 200, Body = ''[123,123]''\<rparr>
     = Panic (IndexOutOfRange 1 1)"
proof -
  let ?e = "exampleEntry 123 ''300x250''"
  let ?p = "\<lparr>AdslotID = ''123'', SupplyID = ''456'', Targeting = Map.empty, ExtId = ''ext''\<rparr>"
  let ?resp = "\<lparr>StatusCode = 200, Body = ''[123,123]''\<rparr>"
  have sz: "splitSize (Adsize ?e) = Inr (300, 250)"
    by (simp add: eval_defs ex_defs)
  have fd: "findBidReq (bidResponse_ID ?e) [?p] = Some ?p"
    by (simp add: eval_defs ex_defs)
  have 1: "StatusCode ?resp = 200" by simp
  have 2: "json_Unmarshal (json_bidResponses exampleLib) (Body ?resp)
             = Inr ([Some ?e] @ Some ?e # [])"
    by (simp add: json_Unmarshal_def exampleLib_def)
  have 3: "parseRequest exampleLib exampleRequest = Inr [?p]"
    by (simp add: eval_defs ex_defs)
  have 4: "length [Some ?e] = length (Imps exampleRequest)"
    by (simp add: exampleRequest_def)
  have 5: "\<forall>e \<in> set [Some ?e]. \<exists>x w h r. e = Some x \<and> splitSize (Adsize x) = Inr (w, h)
                     \<and> findBidReq (bidResponse_ID x) [?p] = Some r"
    using sz fd by simp
  show ?thesis
    using MakeBids_entry_past_last_imp_panics [OF 1 2 3 4 5 sz fd, of exampleAdapter exampleExternal]
    by (simp add: exampleRequest_def)
qed

end
